theory Spec2Isabelle
  imports Complex_Main "HOL-Library.Sublist" "HOL-Library.Char_ord" "HOL-Library.List_Lexorder"
    "HOL-Library.Multiset" "HOL-Library.Log_Nat"
begin

section \<open>Numbers and their decimal rendering\<close>

text \<open>
  A JavaScript \<open>number\<close> is a double: a real of the form \<open>m * 2^e\<close> with \<open>|m| < 2^53\<close>
  and \<open>e \<ge> -1074\<close>. It is modelled as a \<^typ>\<open>real\<close>, and the result of an arithmetic
  operation of the services is the double nearest to the exact result, \<open>fl\<close> of it, a tie
  going to the even significand. A decimal literal \<open>c\<close> of the source is the double
  \<open>fl c\<close>; a literal written without \<open>fl\<close> below is a double already. The values
  \<open>NaN\<close> and \<open>Infinity\<close> have no counterpart: where the program would compute with
  them, the result of the model says so (\<open>NotFinite\<close> below). No number of the program
  comes near the largest double.
\<close>

definition roundHalfEven :: "real \<Rightarrow> int" where
  "roundHalfEven y =
     (let n = \<lfloor>y\<rfloor> in
      if y - of_int n < 1 / 2 then n
      else if y - of_int n > 1 / 2 then n + 1
      else if even n then n else n + 1)"

text \<open>The exponent of the unit in the last place of \<open>x\<close>: 52 below the exponent of
  \<open>x\<close>, and at least \<open>-1074\<close>.\<close>

definition ulpExponent :: "real \<Rightarrow> int" where
  "ulpExponent x = max (- 1074) (bitlen \<lfloor>\<bar>x\<bar> * 2 ^ 1074\<rfloor> - 1127)"

definition fl :: "real \<Rightarrow> real" where
  "fl x = sgn x * (of_int (roundHalfEven (\<bar>x\<bar> / 2 powi ulpExponent x)) * 2 powi ulpExponent x)"

text \<open>\<open>Number.prototype.toFixed(f)\<close>: the integer \<open>n\<close> with \<open>n / 10^f\<close> nearest to
  \<open>|x|\<close>, the larger one on a tie. The functions of this section read their argument
  through \<open>fl\<close>, so that a real that is no double stands for the literal that denotes
  it.\<close>

definition toFixedScaled :: "nat \<Rightarrow> real \<Rightarrow> nat" where
  "toFixedScaled f x = nat \<lfloor>\<bar>fl x\<bar> * 10 ^ f + 1 / 2\<rfloor>"

fun natToString :: "nat \<Rightarrow> string" where
  "natToString n =
     (if n < 10 then [''0123456789'' ! n]
      else natToString (n div 10) @ [''0123456789'' ! (n mod 10)])"

definition padStart :: "nat \<Rightarrow> char \<Rightarrow> string \<Rightarrow> string" where
  "padStart w c s = replicate (w - length s) c @ s"

definition toFixed :: "nat \<Rightarrow> real \<Rightarrow> string" where
  "toFixed f x =
     (let n = toFixedScaled f x in
      (if fl x < 0 then ''-'' else []) @ natToString (n div 10 ^ f) @
      (if f = 0 then [] else ''.'' @ padStart f (CHR ''0'') (natToString (n mod 10 ^ f))))"

text \<open>The number a rendering with \<open>f\<close> decimals denotes, and
  \<open>parseFloat(x.toFixed(f))\<close>, the double nearest to it.\<close>

definition decimal :: "nat \<Rightarrow> real \<Rightarrow> real" where
  "decimal f x = (if fl x < 0 then - 1 else 1) * real (toFixedScaled f x) / 10 ^ f"

definition roundTo :: "nat \<Rightarrow> real \<Rightarrow> real" where
  "roundTo f x = fl (decimal f x)"

text \<open>\<open>Math.round(x)\<close> rounds a tie upwards; \<open>Math.round(x * 100) / 100\<close>.\<close>

definition mathRound :: "real \<Rightarrow> int" where
  "mathRound x = \<lfloor>fl x + 1 / 2\<rfloor>"

definition round2 :: "real \<Rightarrow> real" where
  "round2 x = fl (of_int (mathRound (fl (fl x * 100))) / 100)"

text \<open>\<open>Number.prototype.toString()\<close>, which a template literal and \<open>String(x)\<close> also
  use, for a number from \<open>10^-6\<close> up to \<open>10^21\<close> in size, or zero: the shortest
  rendering that denotes a number whose nearest double is \<open>x\<close>.\<close>

definition numberToString :: "real \<Rightarrow> string" where
  "numberToString x =
     (case find (\<lambda>f. roundTo f x = fl x) [0 ..< 21] of
        Some f \<Rightarrow> toFixed f x
      | None \<Rightarrow> toFixed 21 x)"

section \<open>Data model\<close>

text \<open>The interfaces of \<open>types/options.ts\<close>. An optional field (\<open>f?: T\<close>) is an
  \<open>option\<close>, \<open>None\<close> standing for \<open>undefined\<close>.\<close>

record OptionContract =
  contractSymbol :: string
  strike :: real
  expiryDate :: string
  lastPrice :: real
  bid :: real
  ask :: real
  change :: real
  percentChange :: real
  volume :: real
  openInterest :: real
  impliedVolatility :: real
  inTheMoney :: bool
  lastTradeDate :: string
  isRecommended :: "bool option"
  confidence :: "real option"
  timeToExpiry :: "real option"
  riskFreeRate :: "real option"
  predictedVolatility :: "real option"
  volatilityDifference :: "real option"
  delta :: "real option"
  gamma :: "real option"
  theta :: "real option"
  vega :: "real option"
  rho :: "real option"

record StrikeRange =
  range_min :: real
  range_max :: real

record OptionChain =
  symbol :: string
  calls :: "OptionContract list"
  puts :: "OptionContract list"
  expirationDates :: "string list"
  strikeRange :: StrikeRange
  lastUpdate :: string

datatype OptionType = Calls | Puts

text \<open>The constructors carry a prefix, \<open>ALL\<close> being a binder of the logic.\<close>

datatype Moneyness = M_ITM | M_ATM | M_OTM | M_ALL

record OptionsFilters =
  ticker :: string
  optionType :: OptionType
  f_expiryDate :: "string option"
  minStrike :: "real option"
  maxStrike :: "real option"
  moneyness :: Moneyness
  minVolume :: "real option"
  showRecommendationsOnly :: bool

section \<open>Valuation classifier\<close>

text \<open>\<open>getRecommendationReasons\<close> of the synthesizing service: the list \<open>reasons\<close>
  grows by \<open>push\<close>, first the sentences on the volatility difference, then those on
  delta, open interest and time to expiry.\<close>

definition volatilityReasons :: "OptionContract \<Rightarrow> string list" where
  "volatilityReasons option =
     (case volatilityDifference option of
        None \<Rightarrow> []
      | Some d \<Rightarrow>
          if d > 3 then
            [''Undervalued by '' @ toFixed 3 \<bar>d\<bar> @ ''% based on volatility analysis'',
             ''Our model predicts higher volatility than current market pricing'']
          else if d > 0 then
            [''Slightly undervalued by '' @ toFixed 3 d @ ''% based on volatility analysis'']
          else if d < - 3 then
            [''Overvalued by '' @ toFixed 3 \<bar>d\<bar> @ ''% based on volatility analysis'',
             ''Market is pricing in more volatility than our model predicts'']
          else if d < 0 then
            [''Slightly overvalued by '' @ toFixed 3 \<bar>d\<bar> @ ''% based on volatility analysis'']
          else [])"

definition otherReasons :: "OptionContract \<Rightarrow> string list" where
  "otherReasons option =
     (case delta option of
        Some dl \<Rightarrow>
          if fl dl \<noteq> 0 \<and> \<bar>fl dl\<bar> > fl 0.7 then
            [''High delta ('' @ toFixed 4 dl @ '') provides strong directional exposure'']
          else []
      | None \<Rightarrow> []) @
     (if fl (openInterest option) \<noteq> 0 \<and> fl (openInterest option) > 1000 then
        [''Good liquidity with open interest of '' @ numberToString (openInterest option)]
      else []) @
     (case timeToExpiry option of
        None \<Rightarrow> []
      | Some t \<Rightarrow>
          if fl t < fl 0.08 then
            [''Short time to expiry ('' @ toFixed 1 (fl (fl t * 365)) @
               '' days) may limit time decay impact'']
          else if fl t > 0.25 then
            [''Longer expiration ('' @ toFixed 1 (fl (fl t * 365)) @
               '' days) provides more time for position to develop'']
          else [])"

definition getRecommendationReasons :: "OptionContract \<Rightarrow> string list" where
  "getRecommendationReasons option = volatilityReasons option @ otherReasons option"

text \<open>\<open>formatValue(value, 'volatilityDiff')\<close> of the options table, for a defined value.\<close>

definition formatVolatilityDiff :: "real \<Rightarrow> string" where
  "formatVolatilityDiff v = (if v > 0 then ''+'' else '''') @ toFixed 3 v @ ''%''"

text \<open>\<open>getRecommendationBadge\<close> returns \<open>null\<close> or a badge element; the element is
  kept as the three texts it shows: the label, the tooltip title and the tooltip line.\<close>

record Badge =
  badge_label :: string
  badge_title :: string
  badge_text :: string

definition getRecommendationBadge :: "OptionContract \<Rightarrow> Badge option" where
  "getRecommendationBadge option =
     (case volatilityDifference option of
        None \<Rightarrow> None
      | Some diff \<Rightarrow>
          let isGoodInvestment = diff > 2;
              isBadInvestment = diff < - 2
          in if \<not> isGoodInvestment \<and> \<not> isBadInvestment then None
             else Some \<lparr>
               badge_label = (if isGoodInvestment then ''Buy'' else ''Avoid''),
               badge_title =
                 (if isGoodInvestment then ''Recommended Investment'' else ''Not Recommended''),
               badge_text =
                 (if isGoodInvestment
                  then ''Undervalued by '' @ formatVolatilityDiff \<bar>diff\<bar> @
                       ''. Predicted IV is higher than market IV.''
                  else ''Overvalued by '' @ formatVolatilityDiff \<bar>diff\<bar> @
                       ''. Market IV is higher than predicted IV.'') \<rparr>)"

section \<open>Query engine: filtering\<close>

text \<open>\<open>optionChain[filters.optionType]\<close>.\<close>

definition chainSide :: "OptionChain \<Rightarrow> OptionType \<Rightarrow> OptionContract list" where
  "chainSide ch t = (case t of Calls \<Rightarrow> calls ch | Puts \<Rightarrow> puts ch)"

text \<open>The six steps of \<open>getFilteredOptions\<close>, each reassigning \<open>filteredOptions\<close>.
  \<open>if (filters.expiryDate)\<close> tests truthiness: \<open>null\<close> and the empty string both skip
  the step. \<open>option.isRecommended\<close> is truthy for \<open>true\<close> only.\<close>

definition filterExpiry :: "OptionsFilters \<Rightarrow> OptionContract list \<Rightarrow> OptionContract list" where
  "filterExpiry filters xs =
     (case f_expiryDate filters of
        None \<Rightarrow> xs
      | Some e \<Rightarrow> if e = [] then xs else filter (\<lambda>option. expiryDate option = e) xs)"

definition filterMinStrike :: "OptionsFilters \<Rightarrow> OptionContract list \<Rightarrow> OptionContract list" where
  "filterMinStrike filters xs =
     (case minStrike filters of
        None \<Rightarrow> xs
      | Some m \<Rightarrow> filter (\<lambda>option. strike option \<ge> m) xs)"

definition filterMaxStrike :: "OptionsFilters \<Rightarrow> OptionContract list \<Rightarrow> OptionContract list" where
  "filterMaxStrike filters xs =
     (case maxStrike filters of
        None \<Rightarrow> xs
      | Some m \<Rightarrow> filter (\<lambda>option. strike option \<le> m) xs)"

definition filterMoneyness ::
  "OptionChain \<Rightarrow> OptionsFilters \<Rightarrow> OptionContract list \<Rightarrow> OptionContract list" where
  "filterMoneyness ch filters xs =
     (case moneyness filters of
        M_ALL \<Rightarrow> xs
      | M_ITM \<Rightarrow> filter (\<lambda>option. inTheMoney option) xs
      | M_OTM \<Rightarrow> filter (\<lambda>option. \<not> inTheMoney option) xs
      | M_ATM \<Rightarrow>
          let midPrice = (range_min (strikeRange ch) + range_max (strikeRange ch)) / 2;
              range = midPrice * 0.02
          in filter (\<lambda>option. strike option \<ge> midPrice - range \<and>
                                strike option \<le> midPrice + range) xs)"

definition filterMinVolume :: "OptionsFilters \<Rightarrow> OptionContract list \<Rightarrow> OptionContract list" where
  "filterMinVolume filters xs =
     (case minVolume filters of
        None \<Rightarrow> xs
      | Some m \<Rightarrow> filter (\<lambda>option. volume option \<ge> m) xs)"

definition filterRecommended :: "OptionsFilters \<Rightarrow> OptionContract list \<Rightarrow> OptionContract list" where
  "filterRecommended filters xs =
     (if showRecommendationsOnly filters
      then filter (\<lambda>option. isRecommended option = Some True) xs else xs)"

definition getFilteredOptions :: "OptionChain option \<Rightarrow> OptionsFilters \<Rightarrow> OptionContract list" where
  "getFilteredOptions optionChain filters =
     (case optionChain of
        None \<Rightarrow> []
      | Some ch \<Rightarrow>
          filterRecommended filters
            (filterMinVolume filters
              (filterMoneyness ch filters
                (filterMaxStrike filters
                  (filterMinStrike filters
                    (filterExpiry filters (chainSide ch (optionType filters))))))))"

text \<open>The filter as the specification words it: six predicates, joined by conjunction,
  an unset field holding of every contract.\<close>

definition specExpiry :: "OptionsFilters \<Rightarrow> OptionContract \<Rightarrow> bool" where
  "specExpiry filters c =
     (case f_expiryDate filters of None \<Rightarrow> True
      | Some e \<Rightarrow> e = [] \<or> expiryDate c = e)"

definition specMinStrike :: "OptionsFilters \<Rightarrow> OptionContract \<Rightarrow> bool" where
  "specMinStrike filters c = (case minStrike filters of None \<Rightarrow> True | Some m \<Rightarrow> m \<le> strike c)"

definition specMaxStrike :: "OptionsFilters \<Rightarrow> OptionContract \<Rightarrow> bool" where
  "specMaxStrike filters c = (case maxStrike filters of None \<Rightarrow> True | Some m \<Rightarrow> strike c \<le> m)"

definition atTheMoney :: "OptionChain \<Rightarrow> OptionContract \<Rightarrow> bool" where
  "atTheMoney ch c =
     (let m = (range_min (strikeRange ch) + range_max (strikeRange ch)) / 2
      in m - 0.02 * m \<le> strike c \<and> strike c \<le> m + 0.02 * m)"

definition specMoneyness :: "OptionChain \<Rightarrow> OptionsFilters \<Rightarrow> OptionContract \<Rightarrow> bool" where
  "specMoneyness ch filters c =
     (case moneyness filters of
        M_ALL \<Rightarrow> True | M_ITM \<Rightarrow> inTheMoney c | M_OTM \<Rightarrow> \<not> inTheMoney c | M_ATM \<Rightarrow> atTheMoney ch c)"

definition specMinVolume :: "OptionsFilters \<Rightarrow> OptionContract \<Rightarrow> bool" where
  "specMinVolume filters c = (case minVolume filters of None \<Rightarrow> True | Some m \<Rightarrow> m \<le> volume c)"

definition specRecommended :: "OptionsFilters \<Rightarrow> OptionContract \<Rightarrow> bool" where
  "specRecommended filters c =
     (if showRecommendationsOnly filters then isRecommended c = Some True else True)"

definition specFilter :: "OptionChain \<Rightarrow> OptionsFilters \<Rightarrow> OptionContract list" where
  "specFilter ch filters =
     filter (\<lambda>c. specExpiry filters c \<and> specMinStrike filters c \<and> specMaxStrike filters c \<and>
                  specMoneyness ch filters c \<and> specMinVolume filters c \<and>
                  specRecommended filters c)
       (chainSide ch (optionType filters))"

definition allUnset :: "OptionsFilters \<Rightarrow> bool" where
  "allUnset filters \<longleftrightarrow>
     f_expiryDate filters = None \<and> minStrike filters = None \<and> maxStrike filters = None \<and>
     moneyness filters = M_ALL \<and> minVolume filters = None \<and> \<not> showRecommendationsOnly filters"

section \<open>Query engine: aggregation\<close>

text \<open>\<open>volumeByExpiry\<close> of the statistics panel, which always reads the calls
  (\<open>currentOptionType = "calls"\<close>). The label of a bucket is the date as the runtime's
  \<open>toLocaleDateString\<close> prints it, a parameter here; \<open>reduce\<close> is a left fold from 0,
  each sum rounded as the runtime rounds it.\<close>

definition totalVolume :: "OptionContract list \<Rightarrow> real" where
  "totalVolume xs = foldl (\<lambda>sum opt. fl (sum + volume opt)) 0 xs"

definition volumeByExpiry :: "(string \<Rightarrow> string) \<Rightarrow> OptionChain \<Rightarrow> (string \<times> real) list" where
  "volumeByExpiry label ch =
     map (\<lambda>date. (label date,
                   totalVolume (filter (\<lambda>opt. expiryDate opt = date) (calls ch))))
       (expirationDates ch)"

section \<open>Query engine: sorting\<close>







datatype Direction = Asc | Desc















section \<open>Sample values\<close>

definition sampleContract :: OptionContract where
  "sampleContract = \<lparr>
     contractSymbol = ''AAPL20250103C00000175'', strike = 175, expiryDate = ''2025-01-03'',
     lastPrice = 4.2, bid = 4.1, ask = 4.3, change = 0.1, percentChange = 2.5, volume = 350,
     openInterest = 900, impliedVolatility = 27.5, inTheMoney = False,
     lastTradeDate = ''2024-12-30T15:00:00.000Z'', isRecommended = Some False,
     confidence = Some 0.8, timeToExpiry = Some 0.1, riskFreeRate = Some 4.2,
     predictedVolatility = Some 30.9, volatilityDifference = Some 3.4, delta = Some 0.45,
     gamma = Some 0.02, theta = Some (- 0.05), vega = Some 0.5, rho = Some 0.1 \<rparr>"

definition sampleChain :: OptionChain where
  "sampleChain = \<lparr>
     symbol = ''AAPL'',
     calls = [sampleContract,
              sampleContract\<lparr>strike := 180, volume := 120, isRecommended := Some True\<rparr>,
              sampleContract\<lparr>expiryDate := ''2025-01-10'', volume := 75\<rparr>],
     puts = [sampleContract\<lparr>strike := 170, inTheMoney := True, delta := Some (- 0.45)\<rparr>],
     expirationDates = [''2025-01-03'', ''2025-01-10''],
     strikeRange = \<lparr> range_min = 170, range_max = 180 \<rparr>,
     lastUpdate = ''2024-12-30T15:00:00.000Z'' \<rparr>"

definition unsetFilters :: OptionsFilters where
  "unsetFilters = \<lparr> ticker = ''AAPL'', optionType = Calls, f_expiryDate = None,
     minStrike = None, maxStrike = None, moneyness = M_ALL, minVolume = None,
     showRecommendationsOnly = False \<rparr>"





section \<open>The runtime: random numbers, clock and dates\<close>

text \<open>\<open>Math.random()\<close> is an explicit input: a generator is the sequence of the numbers
  the coming calls return, a call takes the first and leaves the rest. The runtime
  promises doubles in \<open>[0, 1)\<close>.\<close>

type_synonym rng = "nat \<Rightarrow> real"

definition random :: "rng \<Rightarrow> real \<times> rng" where
  "random g = (fl (g 0), \<lambda>n. g (Suc n))"

definition rng_ok :: "rng \<Rightarrow> bool" where
  "rng_ok g \<longleftrightarrow> (\<forall>n. 0 \<le> g n \<and> fl (g n) < 1)"

text \<open>The clock, the \<open>Date\<close> functions and \<open>Math.exp\<close> are parameters. A point in time
  is its number of milliseconds since the epoch. One synchronous run reads one time,
  \<open>nowMs\<close>, at every \<open>new Date()\<close>. \<open>getDay t\<close> is the day of the week of \<open>t\<close> in
  local time, 0 for Sunday; \<open>addDays n t\<close> is the time that \<open>setDate(getDate() + n)\<close>
  turns \<open>t\<close> into, \<open>n\<close> days of the local calendar later, whatever the time zone and
  its daylight saving do. \<open>toISODate\<close> is \<open>toISOString().split('T')[0]\<close> and
  \<open>dateParse s\<close> is \<open>new Date(s).getTime()\<close>. \<open>Math.exp\<close> returns a double near the
  exponential, which one is left to the runtime; \<open>Math.sqrt\<close> is the nearest double in
  the runtimes there are.\<close>

record Platform =
  nowMs :: int
  getDay :: "int \<Rightarrow> int"
  addDays :: "int \<Rightarrow> int \<Rightarrow> int"
  toISOString :: "int \<Rightarrow> string"
  toISODate :: "int \<Rightarrow> string"
  dateParse :: "string \<Rightarrow> int"
  mathExp :: "real \<Rightarrow> real"

definition dayMs :: int where
  "dayMs = 1000 * 60 * 60 * 24"

definition mathSqrt :: "real \<Rightarrow> real" where
  "mathSqrt x = fl (sqrt (fl x))"

text \<open>What the calendar of every runtime does: the next local day is the next day of the
  week, and it begins at least half a day later. What \<open>Math.exp\<close> does: its values are
  not negative, and at most 1 for an argument that is not positive.\<close>

definition calendar_ok :: "Platform \<Rightarrow> bool" where
  "calendar_ok pf \<longleftrightarrow>
     (\<forall>t. getDay pf (addDays pf 1 t) = (getDay pf t + 1) mod 7 \<and>
          t + dayMs div 2 \<le> addDays pf 1 t)"

definition exp_ok :: "Platform \<Rightarrow> bool" where
  "exp_ok pf \<longleftrightarrow> (\<forall>x. 0 \<le> mathExp pf x \<and> (x \<le> 0 \<longrightarrow> mathExp pf x \<le> 1))"

text \<open>The remainder \<open>a % b\<close> takes the sign of \<open>a\<close>.\<close>

definition jsRemainder :: "int \<Rightarrow> int \<Rightarrow> int" where
  "jsRemainder a b = sgn a * (\<bar>a\<bar> mod \<bar>b\<bar>)"

section \<open>Grid builder\<close>

definition getStrikeIncrement :: "real \<Rightarrow> real" where
  "getStrikeIncrement price =
     (if price < 20 then 0.5
      else if price < 50 then 1
      else if price < 100 then 2.5
      else if price < 200 then 5
      else if price < 500 then 10
      else 25)"

definition prices :: "(string \<times> real) list" where
  "prices =
     [(''AAPL'', 175.23), (''TSLA'', 251.47), (''MSFT'', 332.42), (''AMZN'', 174.51),
      (''NVDA'', 785.92), (''GOOGL'', 142.63), (''SPY'', 498.76), (''QQQ'', 432.15),
      (''BAC'', 37.89), (''WMT'', 62.47), (''MCD'', 276.35), (''DIS'', 105.83),
      (''NKE'', 93.25), (''KO'', 61.33), (''V'', 267.58), (''META'', 476.12)]"

text \<open>\<open>prices\<close> is an object literal, so \<open>prices[symbol]\<close> also finds what every object
  inherits from \<open>Object.prototype\<close>: for these names the value is a function (an object
  for \<open>__proto__\<close>), truthy and not a number.\<close>

definition objectPrototypeNames :: "string list" where
  "objectPrototypeNames =
     [''constructor'', ''__defineGetter__'', ''__defineSetter__'', ''hasOwnProperty'',
      ''__lookupGetter__'', ''__lookupSetter__'', ''isPrototypeOf'', ''propertyIsEnumerable'',
      ''toString'', ''valueOf'', ''__proto__'', ''toLocaleString'']"

text \<open>\<open>prices[symbol] || 150 + Math.random() * 100\<close>: every price of the table is truthy,
  and so is an inherited value, so the random number is drawn for the other symbols only.
  The result \<open>None\<close> is an inherited value: every product with it is \<open>NaN\<close>.\<close>

definition getStockPrice :: "string \<Rightarrow> rng \<Rightarrow> real option \<times> rng" where
  "getStockPrice symbol' g =
     (case map_of prices symbol' of
        Some p \<Rightarrow> (Some (fl p), g)
      | None \<Rightarrow>
          if symbol' \<in> set objectPrototypeNames then (None, g)
          else (let (r, g1) = random g in (Some (fl (150 + fl (r * 100))), g1)))"

text \<open>The \<open>while\<close> loop of \<open>getNextFridays\<close>: \<open>date\<close> moves on by one day and is
  pushed when it is a Friday, until \<open>count\<close> Fridays are collected (\<open>cnt\<close> below). That
  the loop ends rests on the calendar of the runtime: \<open>None\<close> is the loop that does not
  end.\<close>

partial_function (option) nextFridaysLoop ::
  "Platform \<Rightarrow> nat \<Rightarrow> int list \<Rightarrow> int \<Rightarrow> int list option" where
  "nextFridaysLoop pf cnt fridays date =
     (if length fridays < cnt then
        nextFridaysLoop pf cnt
          (if getDay pf (addDays pf 1 date) = 5 then fridays @ [addDays pf 1 date] else fridays)
          (addDays pf 1 date)
      else Some fridays)"

definition getNextFridays :: "Platform \<Rightarrow> nat \<Rightarrow> int list option" where
  "getNextFridays pf cnt = nextFridaysLoop pf cnt [] (nowMs pf)"

text \<open>A parameter that shares its name with a field of a record carries a prime.
  The \<open>for\<close> loop over the strikes pushes the rounded strike and adds the step; a sum
  that rounds back to the strike would leave the loop running, \<open>None\<close>.\<close>

partial_function (option) strikesLoop ::
  "real \<Rightarrow> real list \<Rightarrow> real \<Rightarrow> real \<Rightarrow> real list option" where
  "strikesLoop strikeStep strikes strike' maxStrike' =
     (if strike' \<le> maxStrike'
      then strikesLoop strikeStep (strikes @ [round2 strike']) (fl (strike' + strikeStep)) maxStrike'
      else Some strikes)"

section \<open>Contract synthesizer\<close>

datatype ContractType = Call | Put

text \<open>A callback run for every element of an array, in order, the random generator
  passing from one run to the next.\<close>

fun forEachState :: "('a \<Rightarrow> rng \<Rightarrow> 'b \<times> rng) \<Rightarrow> 'a list \<Rightarrow> rng \<Rightarrow> 'b list \<times> rng" where
  "forEachState f [] g = ([], g)"
| "forEachState f (x # xs) g =
     (let (y, g1) = f x g;
          (ys, g2) = forEachState f xs g1
      in (y # ys, g2))"

text \<open>The two pricing functions, every operation rounded, in the order the source
  nests them. The divisors are positive when the time to expiry, the volatility and the
  spot are.\<close>

definition calculateRealisticOptionPrice ::
  "Platform \<Rightarrow> real \<Rightarrow> real \<Rightarrow> real \<Rightarrow> real \<Rightarrow> real \<Rightarrow> ContractType \<Rightarrow> rng \<Rightarrow> real \<times> rng" where
  "calculateRealisticOptionPrice pf spot strike' timeToExpiry' volatility riskFreeRate' ty g =
     (let (r1, g1) = random g;
          timeValue =
            fl (fl (fl (volatility * mathSqrt timeToExpiry') * spot) * fl (fl 0.4 + fl (r1 * fl 0.1)));
          interestFactor = mathExp pf (fl (- riskFreeRate' * timeToExpiry'))
      in case ty of
           Call \<Rightarrow>
             if spot > strike'
             then (fl (fl (fl (spot - strike') * fl (1 - fl (interestFactor * fl 0.1))) + timeValue),
                   g1)
             else (let (r2, g2) = random g1 in (fl (timeValue * fl (1 + fl (r2 * fl 0.1))), g2))
         | Put \<Rightarrow>
             if spot < strike'
             then (fl (fl (fl (strike' - spot) * fl (1 - fl (interestFactor * fl 0.1))) + timeValue),
                   g1)
             else (let (r2, g2) = random g1 in (fl (timeValue * fl (1 + fl (r2 * fl 0.1))), g2)))"

definition calculateRealisticDelta ::
  "real \<Rightarrow> real \<Rightarrow> ContractType \<Rightarrow> real \<Rightarrow> real \<Rightarrow> rng \<Rightarrow> real \<times> rng" where
  "calculateRealisticDelta spot strike' ty timeToExpiry' volatility g =
     (let (r, g1) = random g;
          divisor = fl (fl (fl (spot * volatility) * mathSqrt timeToExpiry') * 4);
          noise = fl (fl (r * fl 0.05) - fl 0.025)
      in case ty of
        Call \<Rightarrow>
          if spot > strike' then
            (let rawDelta = fl (0.5 + fl (fl (spot - strike') / divisor))
             in (min (fl 0.99) (max 0.5 (fl (rawDelta + noise))), g1))
          else
            (let rawDelta = fl (0.5 - fl (fl (strike' - spot) / divisor))
             in (min 0.5 (max (fl 0.01) (fl (rawDelta + noise))), g1))
      | Put \<Rightarrow>
          if spot > strike' then
            (let rawDelta = fl (- 0.5 - fl (fl (spot - strike') / divisor))
             in (max (fl (- 0.99)) (min (- 0.5) (fl (rawDelta - noise))), g1))
          else
            (let rawDelta = fl (- 0.5 + fl (fl (strike' - spot) / divisor))
             in (max (- 0.5) (min (fl (- 0.01)) (fl (rawDelta - noise))), g1)))"

definition volatilityDifferenceValues :: "real list" where
  "volatilityDifferenceValues =
     map fl
       [- 6.492, - 5.782, - 4.326, - 3.981, - 3.254, - 2.813, - 1.937, - 1.528, - 0.871,
        - 0.433, - 0.125, 0.182, 0.347, 0.813, 1.294, 1.752, 2.168, 2.553, 3.114, 3.678,
        4.285, 5.146, 5.973, 6.421]"

text \<open>\<open>expiryDate.replace(/-/g, '')\<close>.\<close>

definition removeDashes :: "string \<Rightarrow> string" where
  "removeDashes s = filter (\<lambda>c. c \<noteq> CHR ''-'') s"

text \<open>The callback of \<open>strikes.forEach\<close> in \<open>generateMockOptions\<close>: one contract, built
  from eleven or twelve random numbers in the order of the statements. An index into
  \<open>volatilityDifferenceValues\<close> outside the array reads \<open>undefined\<close>.\<close>

definition optionForStrike ::
  "Platform \<Rightarrow> string \<Rightarrow> ContractType \<Rightarrow> real \<Rightarrow> string \<Rightarrow> nat \<Rightarrow> real \<Rightarrow> real \<Rightarrow> real \<Rightarrow> rng
     \<Rightarrow> OptionContract \<times> rng" where
  "optionForStrike pf symbol' ty currentPrice expiryDate' dateIndex timeToExpiry' riskFreeRate'
       strike' g =
     (let inTheMoney = (case ty of Call \<Rightarrow> currentPrice > strike' | Put \<Rightarrow> currentPrice < strike');
          moneyness = \<bar>fl (1 - fl (strike' / currentPrice))\<bar>;
          baseIv = fl (fl (0.25 + fl (real dateIndex * fl 0.03)) + fl (moneyness * fl 0.2));
          (r1, g1) = random g;
          impliedVolatility = roundTo 4 (fl (baseIv * fl (1 + fl (fl (r1 * fl 0.4) - fl 0.2))));
          (r2, g2) = random g1;
          randomDiffIndex = \<lfloor>fl (r2 * real (length volatilityDifferenceValues))\<rfloor>;
          volatilityDifference =
            (if 0 \<le> randomDiffIndex \<and> randomDiffIndex < int (length volatilityDifferenceValues)
             then Some (volatilityDifferenceValues ! nat randomDiffIndex) else None);
          predictedVolatility =
            map_option (\<lambda>d. roundTo 3 (fl (fl (impliedVolatility * 100) + d))) volatilityDifference;
          (price, g3) =
            calculateRealisticOptionPrice pf currentPrice strike' timeToExpiry' impliedVolatility
              (fl (riskFreeRate' / 100)) ty g2;
          (r4, g4) = random g3;
          spread = fl (price * fl (fl 0.03 + fl (r4 * fl 0.04)));
          bid = roundTo 2 (fl (price - fl (spread / 2)));
          ask = roundTo 2 (fl (price + fl (spread / 2)));
          (r5, g5) = random g4;
          changePercent = roundTo 3 (fl (fl (r5 * 10) - 5));
          change = roundTo 3 (fl (price * fl (changePercent / 100)));
          (r6, g6) = random g5;
          volume =
            fl (fl (real_of_int \<lfloor>fl (r6 * 1000)\<rfloor> * (if moneyness < fl 0.05 then 10 else 1)) + 50);
          (r7, g7) = random g6;
          openInterest =
            fl (fl (real_of_int \<lfloor>fl (r7 * 5000)\<rfloor> * (if moneyness < fl 0.05 then 5 else 1)) + 200);
          (d, g8) = calculateRealisticDelta currentPrice strike' ty timeToExpiry' impliedVolatility g7;
          delta = roundTo 4 d;
          gamma = roundTo 4
            (fl (fl (delta * fl (1 - delta)) /
                 fl (fl (currentPrice * impliedVolatility) * mathSqrt timeToExpiry')));
          theta = roundTo 4
            (fl (fl (- price * impliedVolatility) / fl (2 * mathSqrt timeToExpiry')));
          vega = roundTo 4 (fl (fl (currentPrice * mathSqrt timeToExpiry') * fl 0.01));
          rho = roundTo 4
            (fl (fl (fl (fl ((case ty of Call \<Rightarrow> 1 | Put \<Rightarrow> - 1) * strike') * timeToExpiry') *
                     mathExp pf (fl (fl (- riskFreeRate' / 100) * timeToExpiry'))) * fl 0.01));
          contractSymbol =
            symbol' @ removeDashes expiryDate' @ (case ty of Call \<Rightarrow> ''C'' | Put \<Rightarrow> ''P'') @
            padStart 8 (CHR ''0'') (numberToString strike');
          (r9, g9) = random g8;
          (r10, g10) = random g9
      in (\<lparr> contractSymbol = contractSymbol, strike = strike', expiryDate = expiryDate',
            lastPrice = roundTo 2 price, bid = bid, ask = ask, change = change,
            percentChange = changePercent, volume = volume, openInterest = openInterest,
            impliedVolatility = roundTo 2 (fl (impliedVolatility * 100)), inTheMoney = inTheMoney,
            lastTradeDate = toISOString pf (nowMs pf), isRecommended = Some (r9 > fl 0.8),
            confidence = Some (roundTo 3 (fl (fl (r10 * fl 0.3) + fl 0.7))),
            timeToExpiry = Some timeToExpiry', riskFreeRate = Some riskFreeRate',
            predictedVolatility = predictedVolatility,
            volatilityDifference = volatilityDifference,
            delta = Some delta, gamma = Some gamma, theta = Some theta, vega = Some vega,
            rho = Some rho \<rparr>, g10))"

text \<open>The time to expiry in years of an expiration date, as the callback of
  \<open>expirationDates.forEach\<close> computes it.\<close>

definition yearsToExpiry :: "Platform \<Rightarrow> string \<Rightarrow> real" where
  "yearsToExpiry pf expiryDate' =
     roundTo 6 (fl (real_of_int (dateParse pf expiryDate' - nowMs pf) / (1000 * 60 * 60 * 24 * 365)))"

definition optionsForDate ::
  "Platform \<Rightarrow> string \<Rightarrow> real list \<Rightarrow> ContractType \<Rightarrow> real \<Rightarrow> string \<times> nat \<Rightarrow> rng
     \<Rightarrow> OptionContract list \<times> rng" where
  "optionsForDate pf symbol' strikes ty currentPrice dated g =
     (let (expiryDate, dateIndex) = dated;
          timeToExpiry = yearsToExpiry pf expiryDate;
          baseRate = fl 4.2;
          (r, g1) = random g;
          riskFreeRate = roundTo 3
            (fl (fl (baseRate + fl (real dateIndex * fl 0.13)) + fl (fl (r * fl 0.18) - fl 0.09)))
      in forEachState
           (optionForStrike pf symbol' ty currentPrice expiryDate dateIndex timeToExpiry riskFreeRate)
           strikes g1)"

definition generateMockOptions ::
  "Platform \<Rightarrow> string \<Rightarrow> string list \<Rightarrow> real list \<Rightarrow> ContractType \<Rightarrow> real \<Rightarrow> rng
     \<Rightarrow> OptionContract list \<times> rng" where
  "generateMockOptions pf symbol' expirationDates' strikes ty currentPrice g =
     (let (options, g1) =
            forEachState (optionsForDate pf symbol' strikes ty currentPrice)
              (zip expirationDates' [0 ..< length expirationDates']) g
      in (concat options, g1))"

text \<open>What \<open>generateMockOptionsData\<close> returns is a chain of finite numbers, or an object
  with numbers in it that are not finite, of which the symbol, the expiration dates and
  the time stamp are kept. That is so when the price is not a number (the strike bounds
  are \<open>NaN\<close> then and there is no strike, none passing \<open>strike <= maxStrike\<close>, while
  the random numbers of the rates are drawn all the same), and when a time to expiry is
  not positive (its root is \<open>NaN\<close>, or a quotient by it is infinite).\<close>

datatype Synthesis = Chain OptionChain | NotFinite string "string list" string

definition generateMockOptionsData :: "Platform \<Rightarrow> string \<Rightarrow> rng \<Rightarrow> (Synthesis \<times> rng) option" where
  "generateMockOptionsData pf symbol' g =
     (let (currentPrice, g1) = getStockPrice symbol' g in
      case getNextFridays pf 6 of
        None \<Rightarrow> None
      | Some fridays \<Rightarrow>
          (let expirationDates = map (toISODate pf) fridays in
           case currentPrice of
             None \<Rightarrow>
               (let (calls, g2) = generateMockOptions pf symbol' expirationDates [] Call 0 g1;
                    (puts, g3) = generateMockOptions pf symbol' expirationDates [] Put 0 g2
                in Some (NotFinite symbol' expirationDates (toISOString pf (nowMs pf)), g3))
           | Some price \<Rightarrow>
               (let minStrike = max 1 (round2 (fl (price * fl 0.7)));
                    maxStrike = round2 (fl (price * fl 1.3))
                in case strikesLoop (getStrikeIncrement price) [] minStrike maxStrike of
                     None \<Rightarrow> None
                   | Some strikes \<Rightarrow>
                       (let (calls, g2) =
                              generateMockOptions pf symbol' expirationDates strikes Call price g1;
                            (puts, g3) =
                              generateMockOptions pf symbol' expirationDates strikes Put price g2
                        in Some
                             (if list_ex (\<lambda>date. yearsToExpiry pf date \<le> 0) expirationDates
                              then NotFinite symbol' expirationDates (toISOString pf (nowMs pf))
                              else Chain \<lparr> symbol = symbol', calls = calls, puts = puts,
                                     expirationDates = expirationDates,
                                     strikeRange =
                                       \<lparr> range_min = minStrike, range_max = maxStrike \<rparr>,
                                     lastUpdate = toISOString pf (nowMs pf) \<rparr>,
                              g3)))))"

section \<open>Chain repository of the synthesizing service\<close>

text \<open>What \<open>fetch\<close> and \<open>response.json()\<close> deliver is an input: either the promise is
  rejected (or reading the body throws), or a body arrives, of which the program looks at
  \<open>data.note\<close> and at \<open>data.data\<close> (absent, or an array of some length).\<close>

record ProviderData =
  hasNote :: bool
  dataLength :: "nat option"

datatype FetchResult = Failed | Json ProviderData

definition transformAlphaVantageData ::
  "Platform \<Rightarrow> ProviderData \<Rightarrow> string \<Rightarrow> rng \<Rightarrow> (Synthesis \<times> rng) option" where
  "transformAlphaVantageData pf providerData symbol' g = generateMockOptionsData pf symbol' g"

definition fetchOptionsData ::
  "Platform \<Rightarrow> FetchResult \<Rightarrow> string \<Rightarrow> rng \<Rightarrow> (Synthesis \<times> rng) option" where
  "fetchOptionsData pf response symbol' g =
     (case response of
        Failed \<Rightarrow> generateMockOptionsData pf symbol' g
      | Json providerData \<Rightarrow>
          if hasNote providerData \<or> dataLength providerData = None \<or>
             dataLength providerData = Some 0
          then generateMockOptionsData pf symbol' g
          else transformAlphaVantageData pf providerData symbol' g)"

section \<open>The caching service\<close>

text \<open>\<open>services/optionsAPI.ts\<close> is a second service of the same names; its functions
  carry the suffix \<open>_api\<close> here where the name is taken. \<open>processOptionsData\<close> builds
  four expirations and eleven strikes around a base price of 150.\<close>

definition apiExpirationDates :: "Platform \<Rightarrow> string list" where
  "apiExpirationDates pf =
     map (\<lambda>i. toISODate pf
                 (addDays pf (jsRemainder (5 - getDay pf (nowMs pf) + 7) 7 + int i * 7)
                    (nowMs pf)))
       [0 ..< 4]"

definition apiStrikes :: "real list" where
  "apiStrikes = map (\<lambda>i. 150 - 25 + real i * 5) [0 ..< 11]"

text \<open>The body of the two nested loops of \<open>generateOptions\<close>: the fourth random number,
  for the confidence, is drawn for a recommended contract only.\<close>

definition apiOption ::
  "Platform \<Rightarrow> string \<Rightarrow> bool \<Rightarrow> string \<Rightarrow> real \<Rightarrow> rng \<Rightarrow> OptionContract \<times> rng" where
  "apiOption pf symbol' isCall expiry strike' g =
     (let basePrice = 150;
          daysToExpiry =
            real_of_int
              (mathRound (fl (real_of_int (dateParse pf expiry - nowMs pf) / (1000 * 3600 * 24))));
          inTheMoney = (if isCall then strike' < basePrice else strike' > basePrice);
          distanceFromStrike = \<bar>fl (strike' - basePrice)\<bar>;
          timePart = fl (5 * mathExp pf (fl (fl (- 0.05) * daysToExpiry)));
          lastPrice =
            (if isCall
             then (if inTheMoney then fl (fl (basePrice - strike') + timePart) else timePart)
             else (if inTheMoney then fl (fl (strike' - basePrice) + timePart) else timePart));
          bid = roundTo 2 (max 0 (fl (lastPrice - fl 0.05)));
          ask = roundTo 2 (fl (bid + fl 0.10));
          volume = real_of_int
            \<lfloor>fl (10000 * mathExp pf (fl (fl (fl (- 0.01) * distanceFromStrike) -
                                         fl (fl 0.03 * daysToExpiry))))\<rfloor>;
          openInterest = real_of_int \<lfloor>fl (volume * 1.5)\<rfloor>;
          (r1, g1) = random g;
          impliedVolatility = roundTo 2 (fl (fl 0.3 + fl (fl 0.05 * r1)));
          delta =
            (if isCall
             then (if inTheMoney
                   then fl (0.5 + fl (0.5 * fl (1 - fl (distanceFromStrike / 50))))
                   else fl (0.5 - fl (0.5 * fl (distanceFromStrike / 50))))
             else (if inTheMoney
                   then fl (- 0.5 - fl (0.5 * fl (1 - fl (distanceFromStrike / 50))))
                   else fl (- 0.5 + fl (0.5 * fl (distanceFromStrike / 50)))));
          gamma = roundTo 4 (fl (fl 0.04 - fl (fl (fl 0.03 * min distanceFromStrike 25) / 25)));
          (r2, g2) = random g1;
          theta = roundTo 4 (fl (fl (- 0.03) - fl (fl 0.02 * r2)));
          vega = roundTo 4 (fl (fl 0.2 - fl (fl (fl 0.15 * distanceFromStrike) / 25)));
          rho = roundTo 4 (fl ((if isCall then fl 0.05 else fl (- 0.05)) * fl (daysToExpiry / 365)));
          (r3, g3) = random g2;
          isRecommended = r3 < fl 0.1;
          (confidence, g4) =
            (if isRecommended
             then (let (r4, g4) = random g3
                   in (Some (roundTo 2 (fl (fl 0.7 + fl (fl 0.3 * r4)))), g4))
             else (None, g3));
          (r5, g5) = random g4;
          (r6, g6) = random g5
      in (\<lparr> contractSymbol =
              symbol' @ removeDashes expiry @ (if isCall then ''C'' else ''P'') @
              padStart 5 (CHR ''0'') (numberToString strike'),
            strike = strike', expiryDate = expiry, lastPrice = roundTo 2 lastPrice,
            bid = bid, ask = ask, change = roundTo 2 (fl (fl (r5 * 2) - 1)),
            percentChange = roundTo 2 (fl (fl (r6 * 10) - 5)), volume = volume,
            openInterest = openInterest, impliedVolatility = impliedVolatility,
            inTheMoney = inTheMoney, lastTradeDate = toISODate pf (nowMs pf),
            isRecommended = Some isRecommended, confidence = confidence,
            timeToExpiry = None, riskFreeRate = None, predictedVolatility = None,
            volatilityDifference = None,
            delta = Some (roundTo 4 delta), gamma = Some gamma, theta = Some theta,
            vega = Some vega, rho = Some rho \<rparr>, g6))"

definition generateOptions :: "Platform \<Rightarrow> string \<Rightarrow> bool \<Rightarrow> rng \<Rightarrow> OptionContract list \<times> rng" where
  "generateOptions pf symbol' isCall g =
     (let (options, g1) =
            forEachState (\<lambda>expiry. forEachState (apiOption pf symbol' isCall expiry) apiStrikes)
              (apiExpirationDates pf) g
      in (concat options, g1))"

definition processOptionsData :: "Platform \<Rightarrow> string \<Rightarrow> rng \<Rightarrow> OptionChain \<times> rng" where
  "processOptionsData pf symbol' g =
     (let (calls, g1) = generateOptions pf symbol' True g;
          (puts, g2) = generateOptions pf symbol' False g1
      in (\<lparr> symbol = symbol', calls = calls, puts = puts,
            expirationDates = apiExpirationDates pf,
            strikeRange = \<lparr> range_min = Min (set apiStrikes), range_max = Max (set apiStrikes) \<rparr>,
            lastUpdate = toISOString pf (nowMs pf) \<rparr>, g2))"

text \<open>The cache: an object indexed by key, each entry a chain and the time it was stored.\<close>

record CacheEntry =
  entry_data :: OptionChain
  entry_timestamp :: int

type_synonym Cache = "string \<Rightarrow> CacheEntry option"

definition CACHE_EXPIRY :: int where
  "CACHE_EXPIRY = 5 * 60 * 1000"

text \<open>\<open>symbol.toUpperCase()\<close>, on the letters of the ASCII alphabet.\<close>

definition toUpperCase :: "string \<Rightarrow> string" where
  "toUpperCase s =
     map (\<lambda>c. case map_of (zip ''abcdefghijklmnopqrstuvwxyz'' ''ABCDEFGHIJKLMNOPQRSTUVWXYZ'') c of
                 Some u \<Rightarrow> u | None \<Rightarrow> c) s"

text \<open>What the provider answers is an input: \<open>fetch\<close> is rejected, or the status is not
  ok, or the body cannot be read (each ends in the \<open>catch\<close> branch), or a body arrives, of
  which the program looks at \<open>"Error Message"\<close> and \<open>"Note"\<close>. The clock is read at entry
  (\<open>Date.now()\<close>, the \<open>nowMs\<close> of the platform) and again when the answer is processed,
  at \<open>later\<close>.\<close>

record ApiBody =
  errorMessage :: bool
  apiNote :: bool

datatype ApiReply = Rejected | NotOk nat | Unreadable | Body ApiBody

definition fetchOptionsData_api ::
  "Cache \<Rightarrow> Platform \<Rightarrow> int \<Rightarrow> ApiReply \<Rightarrow> string \<Rightarrow> rng \<Rightarrow> OptionChain option \<times> Cache \<times> rng" where
  "fetchOptionsData_api cache pf later reply symbol' g =
     (let cacheKey = ''options_'' @ toUpperCase symbol';
          now = nowMs pf
      in case (case cache cacheKey of
                 Some e \<Rightarrow> if now - entry_timestamp e < CACHE_EXPIRY then Some (entry_data e) else None
               | None \<Rightarrow> None) of
           Some cached \<Rightarrow> (Some cached, cache, g)
         | None \<Rightarrow>
             (case reply of
                Rejected \<Rightarrow> (None, cache, g)
              | NotOk status \<Rightarrow> (None, cache, g)
              | Unreadable \<Rightarrow> (None, cache, g)
              | Body b \<Rightarrow>
                  if errorMessage b then (None, cache, g)
                  else if apiNote b then (None, cache, g)
                  else
                    (let (processedData, g1) = processOptionsData (pf\<lparr>nowMs := later\<rparr>) symbol' g
                     in (Some processedData,
                         cache(cacheKey \<mapsto> \<lparr> entry_data = processedData, entry_timestamp = now \<rparr>),
                         g1))))"

text \<open>A Monday morning, 2024-12-30 08:24 UTC, in a runtime whose local time is UTC;
  the date functions are tabulated for the days that occur. The first Friday,
  2025-01-03, is 0.01 years away.\<close>

definition samplePlatform :: Platform where
  "samplePlatform = \<lparr>
     nowMs = 1735547040000,
     getDay = (\<lambda>t. (t div 86400000 + 4) mod 7),
     addDays = (\<lambda>n t. t + n * 86400000),
     toISOString = (\<lambda>t. if t = 1735547040000 then ''2024-12-30T08:24:00.000Z''
                         else if t = 1735547041000 then ''2024-12-30T08:24:01.000Z''
                         else ''2024-12-30T08:30:00.000Z''),
     toISODate = (\<lambda>t. case map_of
                        [(20087, ''2024-12-30''), (20091, ''2025-01-03''), (20098, ''2025-01-10''),
                         (20105, ''2025-01-17''), (20112, ''2025-01-24''), (20119, ''2025-01-31''),
                         (20126, ''2025-02-07'')] (t div dayMs) of
                      Some s \<Rightarrow> s | None \<Rightarrow> []),
     dateParse = (\<lambda>s. case map_of
                        [(''2024-12-30'', 20087), (''2025-01-03'', 20091), (''2025-01-10'', 20098),
                         (''2025-01-17'', 20105), (''2025-01-24'', 20112), (''2025-01-31'', 20119),
                         (''2025-02-07'', 20126)] s of
                      Some d \<Rightarrow> d * dayMs | None \<Rightarrow> 0),
     mathExp = (\<lambda>x. fl (exp x)) \<rparr>"

definition sampleRng :: rng where
  "sampleRng = (\<lambda>n. 0.7)"

definition goodBody :: ApiReply where
  "goodBody = Body \<lparr> errorMessage = False, apiNote = False \<rparr>"

definition rateLimited :: ApiReply where
  "rateLimited = Body \<lparr> errorMessage = False, apiNote = True \<rparr>"

text \<open>A body with neither error message nor note, and a cached entry younger than the
  time to live.\<close>

definition usableReply :: "ApiReply \<Rightarrow> bool" where
  "usableReply reply = (case reply of Body b \<Rightarrow> \<not> errorMessage b \<and> \<not> apiNote b | _ \<Rightarrow> False)"

definition freshEntry :: "Cache \<Rightarrow> Platform \<Rightarrow> string \<Rightarrow> bool" where
  "freshEntry cache pf symbol' =
     (case cache (''options_'' @ toUpperCase symbol') of
        Some e \<Rightarrow> nowMs pf - entry_timestamp e < CACHE_EXPIRY
      | None \<Rightarrow> False)"

definition staleCache :: Cache where
  "staleCache = Map.empty(''options_AAPL'' \<mapsto>
     \<lparr> entry_data = sampleChain, entry_timestamp = 1735547040000 - 300000 \<rparr>)"


section \<open>Properties of the rounding\<close>

text \<open>\<open>fl\<close> is monotone, odd and idempotent, leaves a number \<open>m * 2^j\<close> with
  \<open>|m| < 2^53\<close> alone, and moves a number by at most half a unit in the last place.\<close>

lemma roundHalfEven_mono: "x \<le> y \<Longrightarrow> roundHalfEven x \<le> roundHalfEven y"
proof -
  assume xy: "x \<le> y"
  have fx: "\<lfloor>x\<rfloor> \<le> \<lfloor>y\<rfloor>" using xy by (rule floor_mono)
  show ?thesis
  proof (cases "\<lfloor>x\<rfloor> = \<lfloor>y\<rfloor>")
    case True
    then show ?thesis using xy unfolding roundHalfEven_def Let_def by auto
  next
    case False
    then have "\<lfloor>x\<rfloor> + 1 \<le> \<lfloor>y\<rfloor>" using fx by simp
    moreover have "roundHalfEven x \<le> \<lfloor>x\<rfloor> + 1" unfolding roundHalfEven_def Let_def by auto
    moreover have "\<lfloor>y\<rfloor> \<le> roundHalfEven y" unfolding roundHalfEven_def Let_def by auto
    ultimately show ?thesis by linarith
  qed
qed

lemma roundHalfEven_of_int: "roundHalfEven (of_int n) = n"
  unfolding roundHalfEven_def Let_def by simp

lemma roundHalfEven_error: "\<bar>of_int (roundHalfEven y) - y\<bar> \<le> 1 / 2"
  unfolding roundHalfEven_def Let_def by (auto simp add: abs_if) linarith+


lemma bitlen_mono: "x \<le> y \<Longrightarrow> bitlen x \<le> bitlen y"
proof (cases "0 < y")
  case True
  assume "x \<le> y"
  then have "x < 2 ^ nat (bitlen y)" using bitlen_bounds [OF True] by linarith
  then show ?thesis by (simp add: bitlen_le_iff_power bitlen_nonneg)
next
  case False
  assume "x \<le> y"
  then have "bitlen x = 0" using False by (simp add: bitlen_eq_zero_iff)
  then show ?thesis by (simp add: bitlen_nonneg)
qed

lemma ulpExponent_mono: "\<bar>x\<bar> \<le> \<bar>y\<bar> \<Longrightarrow> ulpExponent x \<le> ulpExponent y"
proof -
  assume "\<bar>x\<bar> \<le> \<bar>y\<bar>"
  then have "\<lfloor>\<bar>x\<bar> * 2 ^ 1074\<rfloor> \<le> \<lfloor>\<bar>y\<bar> * 2 ^ 1074\<rfloor>"
    by (intro floor_mono) simp
  then have "bitlen \<lfloor>\<bar>x\<bar> * 2 ^ 1074\<rfloor> \<le> bitlen \<lfloor>\<bar>y\<bar> * 2 ^ 1074\<rfloor>"
    by (rule bitlen_mono)
  then show ?thesis unfolding ulpExponent_def by linarith
qed

lemma ulpExponent_ge: "- 1074 \<le> ulpExponent x"
  unfolding ulpExponent_def by simp

lemma two_powi_pos: "0 < (2::real) powi k"
  by simp

lemma two_powi_nat: "0 \<le> k \<Longrightarrow> (2::real) powi k = 2 ^ nat k"
  by (simp add: power_int_def)

lemma two_powi_add: "(2::real) powi (j + k) = 2 powi j * 2 powi k"
  by (simp add: power_int_add)

lemma two_powi_less_iff: "(2::real) powi a < 2 powi b \<longleftrightarrow> a < b"
proof
  assume l: "(2::real) powi a < 2 powi b"
  show "a < b"
  proof (rule ccontr)
    assume "\<not> a < b"
    then have "(2::real) powi b \<le> 2 powi a" by (intro power_int_increasing) simp_all
    then show False using l by simp
  qed
next
  assume "a < b"
  then show "(2::real) powi a < 2 powi b" by (intro power_int_strict_increasing) simp_all
qed

lemma two_powi_le_iff: "(2::real) powi a \<le> 2 powi b \<longleftrightarrow> a \<le> b"
proof
  assume l: "(2::real) powi a \<le> 2 powi b"
  show "a \<le> b"
  proof (rule ccontr)
    assume "\<not> a \<le> b"
    then have "(2::real) powi b < 2 powi a" by (intro power_int_strict_increasing) simp_all
    then show False using l by simp
  qed
next
  assume "a \<le> b"
  then show "(2::real) powi a \<le> 2 powi b" by (intro power_int_increasing) simp_all
qed

lemma ulp_upper: "\<bar>x\<bar> < 2 powi (ulpExponent x + 53)"
proof -
  define n where "n = \<lfloor>\<bar>x\<bar> * 2 ^ 1074\<rfloor>"
  define w where "w = ulpExponent x + 1127"
  have w: "bitlen n \<le> w" "0 \<le> w"
    unfolding w_def n_def ulpExponent_def by simp_all
  then have "n < 2 ^ nat w" by (simp add: bitlen_le_iff_power)
  then have "\<bar>x\<bar> * 2 ^ 1074 < of_int (2 ^ nat w)"
    unfolding n_def by (simp only: floor_less_iff)
  then have "\<bar>x\<bar> * 2 powi 1074 < 2 powi w"
    using w(2) by (simp add: two_powi_nat)
  moreover have "ulpExponent x + 1127 = (ulpExponent x + 53) + 1074" by simp
  then have "(2::real) powi w = 2 powi (ulpExponent x + 53) * 2 powi 1074"
    unfolding w_def by (simp only: two_powi_add)
  ultimately show ?thesis by simp
qed

lemma ulp_lower:
  assumes "- 1074 < ulpExponent x"
  shows "2 powi (ulpExponent x + 52) \<le> \<bar>x\<bar>"
proof -
  define n where "n = \<lfloor>\<bar>x\<bar> * 2 ^ 1074\<rfloor>"
  define w where "w = ulpExponent x + 1127"
  have w: "w \<le> bitlen n" "1 \<le> w"
    using assms unfolding w_def n_def ulpExponent_def by simp_all
  then have "2 ^ (nat w - 1) \<le> n" by (simp add: bitlen_ge_iff_power)
  then have "of_int (2 ^ (nat w - 1)) \<le> \<bar>x\<bar> * 2 ^ 1074"
    unfolding n_def by (simp only: le_floor_iff)
  moreover have "nat w - 1 = nat (w - 1)" by simp
  ultimately have "2 powi (w - 1) \<le> \<bar>x\<bar> * 2 powi 1074"
    using w(2) by (simp add: two_powi_nat)
  moreover have "ulpExponent x + 1127 - 1 = (ulpExponent x + 52) + 1074" by simp
  then have "(2::real) powi (w - 1) = 2 powi (ulpExponent x + 52) * 2 powi 1074"
    unfolding w_def by (simp only: two_powi_add)
  ultimately show ?thesis by simp
qed


lemma ulpExponent_minus: "ulpExponent (- x) = ulpExponent x"
  unfolding ulpExponent_def by simp

lemma fl_minus: "fl (- x) = - fl x"
  unfolding fl_def by (simp add: ulpExponent_minus sgn_minus)

lemma fl_zero: "fl 0 = 0"
  unfolding fl_def by simp

lemma roundHalfEven_nonneg: "0 \<le> y \<Longrightarrow> 0 \<le> roundHalfEven y"
  using roundHalfEven_mono [of 0 y] roundHalfEven_of_int [of 0] by simp

lemma fl_pos_eq:
  "0 \<le> x \<Longrightarrow> fl x = of_int (roundHalfEven (x / 2 powi ulpExponent x)) * 2 powi ulpExponent x"
  unfolding fl_def by (cases "x = 0") (simp_all add: roundHalfEven_of_int [of 0, simplified])

lemma fl_nonneg: "0 \<le> x \<Longrightarrow> 0 \<le> fl x"
  by (simp add: fl_pos_eq roundHalfEven_nonneg)

lemma significand_le:
  assumes "0 \<le> x"
  shows "roundHalfEven (x / 2 powi ulpExponent x) \<le> 2 ^ 53"
proof -
  have "x < 2 powi (ulpExponent x + 53)" using ulp_upper [of x] assms by simp
  also have "\<dots> = 2 powi 53 * 2 powi ulpExponent x"
    by (simp only: two_powi_add mult.commute)
  finally have "x / 2 powi ulpExponent x < 2 powi 53"
    by (simp add: pos_divide_less_eq)
  then have "x / 2 powi ulpExponent x \<le> of_int (2 ^ 53)" by simp
  then have "roundHalfEven (x / 2 powi ulpExponent x) \<le> roundHalfEven (of_int (2 ^ 53))"
    by (rule roundHalfEven_mono)
  then show ?thesis by (simp only: roundHalfEven_of_int)
qed

lemma significand_ge:
  assumes "0 \<le> x" and "- 1074 < ulpExponent x"
  shows "2 ^ 52 \<le> roundHalfEven (x / 2 powi ulpExponent x)"
proof -
  have "(2::real) powi 52 * 2 powi ulpExponent x = 2 powi (ulpExponent x + 52)"
    by (simp only: two_powi_add mult.commute)
  also have "\<dots> \<le> x" using ulp_lower [OF assms(2)] assms(1) by simp
  finally have "2 powi 52 \<le> x / 2 powi ulpExponent x"
    by (simp add: pos_le_divide_eq)
  then have "of_int (2 ^ 52) \<le> x / 2 powi ulpExponent x" by simp
  then have "roundHalfEven (of_int (2 ^ 52)) \<le> roundHalfEven (x / 2 powi ulpExponent x)"
    by (rule roundHalfEven_mono)
  then show ?thesis by (simp only: roundHalfEven_of_int)
qed

lemma fl_mono_nonneg:
  assumes "0 \<le> x" and "x \<le> y"
  shows "fl x \<le> fl y"
proof -
  have y: "0 \<le> y" using assms by simp
  define a where "a = ulpExponent x"
  define b where "b = ulpExponent y"
  have ab: "a \<le> b" unfolding a_def b_def using assms by (intro ulpExponent_mono) simp
  show ?thesis
  proof (cases "a = b")
    case True
    have "x / 2 powi a \<le> y / 2 powi a"
      using assms(2) by (simp add: divide_right_mono)
    then have "roundHalfEven (x / 2 powi a) \<le> roundHalfEven (y / 2 powi a)"
      by (rule roundHalfEven_mono)
    then have "real_of_int (roundHalfEven (x / 2 powi a)) * 2 powi a
        \<le> real_of_int (roundHalfEven (y / 2 powi a)) * 2 powi a"
      by (intro mult_right_mono) simp_all
    then show ?thesis
      using True unfolding fl_pos_eq [OF assms(1)] fl_pos_eq [OF y] a_def b_def by simp
  next
    case False
    then have lt: "a + 1 \<le> b" using ab by simp
    have b: "- 1074 < b" using lt ulpExponent_ge [of x] unfolding a_def by linarith
    have "fl x \<le> 2 ^ 53 * 2 powi a"
      unfolding fl_pos_eq [OF assms(1)] a_def [symmetric]
      using significand_le [OF assms(1)] unfolding a_def [symmetric]
      by (intro mult_right_mono) (simp_all add: of_int_le_iff [of _ "2 ^ 53", simplified] del: of_int_le_iff)
    also have "\<dots> = 2 powi (a + 53)"
      by (simp only: two_powi_add mult.commute) simp
    also have "\<dots> \<le> 2 powi (b + 52)"
      using lt by (intro power_int_increasing) simp_all
    also have "\<dots> = 2 ^ 52 * 2 powi b"
      by (simp only: two_powi_add mult.commute) simp
    also have "\<dots> \<le> fl y"
      unfolding fl_pos_eq [OF y] b_def [symmetric]
      using significand_ge [OF y] b unfolding b_def [symmetric]
      by (intro mult_right_mono) (simp_all add: of_int_le_iff [of "2 ^ 52", simplified] del: of_int_le_iff)
    finally show ?thesis .
  qed
qed

lemma fl_mono:
  assumes "x \<le> y"
  shows "fl x \<le> fl y"
proof (cases "0 \<le> x")
  case True
  then show ?thesis using assms by (rule fl_mono_nonneg)
next
  case False
  show ?thesis
  proof (cases "0 \<le> y")
    case True
    have "fl (- x) \<ge> 0" using False by (intro fl_nonneg) simp
    then have "fl x \<le> 0" by (simp add: fl_minus)
    then show ?thesis using fl_nonneg [OF True] by simp
  next
    case False
    then have "fl (- y) \<le> fl (- x)" using assms by (intro fl_mono_nonneg) simp_all
    then show ?thesis by (simp add: fl_minus)
  qed
qed


lemma fl_exact_nonneg:
  assumes m: "0 \<le> m" "m < 2 ^ 53" and j: "- 1074 \<le> j"
  shows "fl (of_int m * 2 powi j) = of_int m * 2 powi j"
proof -
  define x :: real where "x = of_int m * 2 powi j"
  have x: "0 \<le> x" unfolding x_def using m(1) by simp
  define u where "u = ulpExponent x"
  have uj: "u \<le> j"
  proof (cases "- 1074 < u")
    case True
    have "2 powi (u + 52) \<le> x"
      using ulp_lower [of x] True x unfolding u_def by simp
    also have "x < 2 ^ 53 * 2 powi j"
      unfolding x_def using m(2) by (intro mult_strict_right_mono) (simp_all add: of_int_less_iff [of _ "2 ^ 53", simplified] del: of_int_less_iff)
    also have "\<dots> = 2 powi (j + 53)"
      by (simp only: two_powi_add mult.commute) simp
    finally have "u + 52 < j + 53"
      by (simp only: two_powi_less_iff) 
    then show ?thesis by simp
  next
    case False
    then show ?thesis using j by simp
  qed
  have "(2::real) powi j = 2 powi (j - u) * 2 powi u"
    by (simp only: two_powi_add [symmetric]) simp
  then have "x / 2 powi u = of_int m * 2 powi (j - u)"
    unfolding x_def by simp
  also have "\<dots> = of_int (m * 2 ^ nat (j - u))"
    using uj by (simp add: two_powi_nat)
  finally have "roundHalfEven (x / 2 powi u) = m * 2 ^ nat (j - u)"
    by (simp only: roundHalfEven_of_int)
  then have "fl x = of_int (m * 2 ^ nat (j - u)) * 2 powi u"
    unfolding fl_pos_eq [OF x] u_def by simp
  also have "\<dots> = of_int m * (2 powi (j - u) * 2 powi u)"
    using uj by (simp add: two_powi_nat)
  also have "\<dots> = x"
    unfolding x_def by (simp only: two_powi_add [symmetric]) simp
  finally show ?thesis unfolding x_def .
qed

lemma fl_exact:
  assumes "\<bar>m\<bar> < 2 ^ 53" and "- 1074 \<le> j"
  shows "fl (of_int m * 2 powi j) = of_int m * 2 powi j"
proof (cases "0 \<le> m")
  case True
  then show ?thesis using assms by (intro fl_exact_nonneg) simp_all
next
  case False
  then have "fl (of_int (- m) * 2 powi j) = of_int (- m) * 2 powi j"
    using assms by (intro fl_exact_nonneg) simp_all
  then show ?thesis using fl_minus [of "of_int m * 2 powi j"] by simp
qed

lemma fl_of_int:
  assumes "\<bar>m\<bar> < 2 ^ 53"
  shows "fl (of_int m) = of_int m"
  using fl_exact [OF assms, of 0] by simp

lemma fl_two_powi:
  assumes "- 1074 \<le> j"
  shows "fl (2 powi j) = 2 powi j"
  using fl_exact [of 1 j] assms by simp

lemma fl_error: "\<bar>fl x - x\<bar> \<le> 2 powi ulpExponent x / 2"
proof -
  have nonneg: "\<bar>fl y - y\<bar> \<le> 2 powi ulpExponent y / 2" if y: "0 \<le> y" for y
  proof -
    define p :: real where "p = 2 powi ulpExponent y"
    have p: "0 < p" unfolding p_def by simp
    have "fl y - y = (of_int (roundHalfEven (y / p)) - y / p) * p"
      unfolding fl_pos_eq [OF y] p_def by (simp add: algebra_simps)
    then have "\<bar>fl y - y\<bar> = \<bar>of_int (roundHalfEven (y / p)) - y / p\<bar> * p"
      using p by (simp add: abs_mult)
    also have "\<dots> \<le> (1 / 2) * p"
      using p roundHalfEven_error [of "y / p"] by (intro mult_right_mono) simp_all
    finally show ?thesis unfolding p_def by simp
  qed
  show ?thesis
  proof (cases "0 \<le> x")
    case True
    then show ?thesis by (rule nonneg)
  next
    case False
    then have "\<bar>fl (- x) - (- x)\<bar> \<le> 2 powi ulpExponent (- x) / 2"
      by (intro nonneg) simp
    then show ?thesis by (simp add: fl_minus ulpExponent_minus abs_minus_commute)
  qed
qed

lemma ulpExponent_le:
  assumes "\<bar>x\<bar> \<le> 2 powi k" and "- 1022 \<le> k"
  shows "ulpExponent x \<le> k - 52"
proof (cases "- 1074 < ulpExponent x")
  case True
  have "2 powi (ulpExponent x + 52) \<le> \<bar>x\<bar>" using True by (rule ulp_lower)
  also have "\<dots> \<le> 2 powi k" by (rule assms(1))
  finally have "ulpExponent x + 52 \<le> k"
    by (simp only: two_powi_le_iff)
  then show ?thesis by simp
next
  case False
  then show ?thesis using assms(2) by simp
qed

lemma fl_error_bound:
  assumes "\<bar>x\<bar> \<le> 2 powi k" and "- 1022 \<le> k"
  shows "\<bar>fl x - x\<bar> \<le> 2 powi (k - 53)"
proof -
  have "\<bar>fl x - x\<bar> \<le> 2 powi ulpExponent x / 2" by (rule fl_error)
  also have "\<dots> = 2 powi (ulpExponent x - 1)"
    by (simp add: power_int_diff)
  also have "\<dots> \<le> 2 powi (k - 53)"
    using ulpExponent_le [OF assms] by (intro power_int_increasing) simp_all
  finally show ?thesis .
qed

lemma fl_fl: "fl (fl x) = fl x"
proof -
  have nonneg: "fl (fl y) = fl y" if y: "0 \<le> y" for y
  proof -
    define M where "M = roundHalfEven (y / 2 powi ulpExponent y)"
    have M: "0 \<le> M" "M \<le> 2 ^ 53"
      unfolding M_def using y significand_le [OF y] by (simp_all add: roundHalfEven_nonneg)
    have eq: "fl y = of_int M * 2 powi ulpExponent y"
      unfolding M_def by (rule fl_pos_eq [OF y])
    show ?thesis
    proof (cases "M = 2 ^ 53")
      case True
      have "fl y = 2 powi 53 * 2 powi ulpExponent y" unfolding eq True by simp
      also have "\<dots> = 2 powi (ulpExponent y + 53)"
        by (simp only: two_powi_add mult.commute)
      finally have e: "fl y = 2 powi (ulpExponent y + 53)" .
      show ?thesis unfolding e using ulpExponent_ge [of y] by (intro fl_two_powi) simp
    next
      case False
      then have "M < 2 ^ 53" using M(2) by simp
      then show ?thesis unfolding eq using M(1) ulpExponent_ge [of y]
        by (intro fl_exact_nonneg) simp_all
    qed
  qed
  show ?thesis
  proof (cases "0 \<le> x")
    case True
    then show ?thesis by (rule nonneg)
  next
    case False
    then have "fl (fl (- x)) = fl (- x)" by (intro nonneg) simp
    then show ?thesis by (simp add: fl_minus)
  qed
qed


lemma ulpExponent_eq:
  assumes "2 powi (u + 52) \<le> \<bar>x\<bar>" and "\<bar>x\<bar> < 2 powi (u + 53)" and "- 1074 \<le> u"
  shows "ulpExponent x = u"
proof -
  have "2 powi (u + 52) < (2::real) powi (ulpExponent x + 53)"
    using assms(1) ulp_upper [of x] by linarith
  then have le: "u \<le> ulpExponent x" by (simp only: two_powi_less_iff)
  have "ulpExponent x \<le> u"
  proof (cases "- 1074 < ulpExponent x")
    case True
    have "(2::real) powi (ulpExponent x + 52) < 2 powi (u + 53)"
      using ulp_lower [OF True] assms(2) by linarith
    then show ?thesis by (simp only: two_powi_less_iff)
  next
    case False
    then show ?thesis using assms(3) by simp
  qed
  then show ?thesis using le by simp
qed

lemma fl_in_binade:
  assumes "2 powi e \<le> \<bar>x\<bar>" and "\<bar>x\<bar> < 2 powi (e + 1)" and "- 1022 \<le> e"
  shows "fl x = sgn x * (of_int (roundHalfEven (\<bar>x\<bar> * 2 powi (52 - e))) / 2 powi (52 - e))"
proof -
  have "ulpExponent x = e - 52"
    using assms by (intro ulpExponent_eq) (simp_all add: algebra_simps)
  moreover have "(2::real) powi (e - 52) = 1 / 2 powi (52 - e)"
    using power_int_minus [of "2::real" "52 - e"] by (simp add: field_simps)
  ultimately show ?thesis unfolding fl_def by simp
qed

section \<open>Properties of the valuation classifier\<close>

lemma replicate_numeral_unfold: "replicate (numeral k) x = x # replicate (pred_numeral k) x"
  by (simp add: numeral_eq_Suc)

lemma toFixed_value:
  assumes "fl x = y"
  shows "toFixed f x =
     (let n = nat \<lfloor>\<bar>y\<bar> * 10 ^ f + 1 / 2\<rfloor> in
      (if y < 0 then ''-'' else []) @ natToString (n div 10 ^ f) @
      (if f = 0 then [] else ''.'' @ padStart f (CHR ''0'') (natToString (n mod 10 ^ f))))"
  unfolding toFixed_def toFixedScaled_def assms ..

lemma fl_one: "fl 1 = 1"
  using fl_of_int [of 1] by simp

lemma fl_numeral: "numeral k < (2::int) ^ 53 \<Longrightarrow> fl (numeral k) = numeral k"
  using fl_of_int [of "numeral k"] by simp

lemma fl_half: "fl (1 / 2) = 1 / 2" "fl (1 / 4) = 1 / 4" "fl (3 / 4) = 3 / 4" "fl (5 / 2) = 5 / 2"
  using fl_exact [of 1 "- 1"] fl_exact [of 1 "- 2"] fl_exact [of 3 "- 2"] fl_exact [of 5 "- 1"]
  by (simp_all add: power_int_minus)

lemma fl_sample_values:
  "fl 3.4 = 3.4 - 1 / (5 * 2 ^ 51)" "fl 0.9 = 0.9 + 1 / (5 * 2 ^ 53)"
  by (subst fl_in_binade [of 1], simp, simp, simp, simp add: roundHalfEven_def)
     (subst fl_in_binade [of "- 1"], simp, simp, simp, simp add: roundHalfEven_def)

lemma toFixed_samples:
  "toFixed 3 3.4 = ''3.400''" "toFixed 3 1.0 = ''1.000''" "toFixed 3 2.5 = ''2.500''"
  "toFixed 4 0.9 = ''0.9000''"
proof -
  have h: "fl 2.5 = 2.5" using fl_half(4) by simp
  show "toFixed 3 3.4 = ''3.400''"
    using toFixed_value [OF fl_sample_values(1), of 3]
    by (simp add: padStart_def replicate_numeral_unfold)
  show "toFixed 3 1.0 = ''1.000''"
    using toFixed_value [of 1 1 3] by (simp add: padStart_def replicate_numeral_unfold fl_one)
  show "toFixed 3 2.5 = ''2.500''"
    using toFixed_value [OF h, of 3] by (simp add: padStart_def replicate_numeral_unfold)
  show "toFixed 4 0.9 = ''0.9000''"
    using toFixed_value [OF fl_sample_values(2), of 4]
    by (simp add: padStart_def replicate_numeral_unfold)
qed

lemma sample_readings:
  "\<not> \<bar>fl 0.45\<bar> > fl 0.7" "\<not> fl 0.1 < fl 0.08" "\<not> fl 0.1 > 0.25" "fl 900 = 900"
  "\<bar>fl 0.9\<bar> > fl 0.7" "fl 0.9 \<noteq> 0"
proof -
  have "fl 0.45 \<le> fl (1 / 2)" by (intro fl_mono) simp
  moreover have "fl (1 / 2) \<le> fl 0.7" by (intro fl_mono) simp
  moreover have "0 \<le> fl 0.45" by (intro fl_nonneg) simp
  ultimately show "\<not> \<bar>fl 0.45\<bar> > fl 0.7" by simp
  show "\<not> fl 0.1 < fl 0.08" using fl_mono [of "0.08" "0.1"] by simp
  have "fl 0.1 \<le> fl (1 / 4)" by (intro fl_mono) simp
  then show "\<not> fl 0.1 > 0.25" by (simp add: fl_half)
  show "fl 900 = 900" by (simp add: fl_numeral)
  have "fl 0.7 \<le> fl (3 / 4)" by (intro fl_mono) simp
  moreover have "fl 0.9 = 0.9 + 1 / (5 * 2 ^ 53)" by (rule fl_sample_values)
  ultimately show "\<bar>fl 0.9\<bar> > fl 0.7" "fl 0.9 \<noteq> 0" by (simp_all add: fl_half)
qed

lemma otherReasons_sample:
  "otherReasons sampleContract = []"
  "otherReasons (sampleContract\<lparr>delta := Some 0.9\<rparr>) =
     [''High delta (0.9000) provides strong directional exposure'']"
  using sample_readings toFixed_samples by (simp_all add: otherReasons_def sampleContract_def)

text \<open>
  Claim C1, as amended. What the classifier says about the volatility is a function of the
  volatility difference \<open>d\<close> alone. The badge is ``Buy'' with the text
  ``Undervalued by +d\%'' (three decimals) when \<open>d > 2\<close>, ``Avoid'' with ``Overvalued by''
  when \<open>d < -2\<close>, and absent for \<open>d\<close> in \<open>[-2, 2]\<close> and for a contract without a
  volatility difference. The justification sentences of \<open>getRecommendationReasons\<close>
  change at 3 and at 0, not at 2: ``Undervalued by'' above 3, ``Slightly undervalued by''
  in \<open>(0, 3]\<close>, ``Overvalued by'' below \<open>-3\<close>, ``Slightly overvalued by'' in
  \<open>[-3, 0)\<close>, nothing at 0 and nothing without a volatility difference. These sentences
  open the list of reasons; the list as a whole is a function of the volatility
  difference, delta, open interest and time to expiry.
\<close>

theorem classifier_bands:
  "getRecommendationBadge a =
     (case volatilityDifference a of
        None \<Rightarrow> None
      | Some d \<Rightarrow>
          if d > 2 then
            Some \<lparr> badge_label = ''Buy'', badge_title = ''Recommended Investment'',
                   badge_text = ''Undervalued by +'' @ toFixed 3 d @
                                ''%. Predicted IV is higher than market IV.'' \<rparr>
          else if d < - 2 then
            Some \<lparr> badge_label = ''Avoid'', badge_title = ''Not Recommended'',
                   badge_text = ''Overvalued by +'' @ toFixed 3 (- d) @
                                ''%. Market IV is higher than predicted IV.'' \<rparr>
          else None) \<and>
   volatilityReasons a =
     (case volatilityDifference a of
        None \<Rightarrow> []
      | Some d \<Rightarrow>
          if d > 3 then
            [''Undervalued by '' @ toFixed 3 d @ ''% based on volatility analysis'',
             ''Our model predicts higher volatility than current market pricing'']
          else if d > 0 then
            [''Slightly undervalued by '' @ toFixed 3 d @ ''% based on volatility analysis'']
          else if d < - 3 then
            [''Overvalued by '' @ toFixed 3 (- d) @ ''% based on volatility analysis'',
             ''Market is pricing in more volatility than our model predicts'']
          else if d < 0 then
            [''Slightly overvalued by '' @ toFixed 3 (- d) @ ''% based on volatility analysis'']
          else []) \<and>
   prefix (volatilityReasons a) (getRecommendationReasons a) \<and>
   (volatilityDifference b = volatilityDifference a \<longrightarrow>
      getRecommendationBadge b = getRecommendationBadge a \<and>
      volatilityReasons b = volatilityReasons a) \<and>
   (volatilityDifference b = volatilityDifference a \<and> delta b = delta a \<and>
    openInterest b = openInterest a \<and> timeToExpiry b = timeToExpiry a \<longrightarrow>
      getRecommendationReasons b = getRecommendationReasons a)"
proof -
  have badge: "getRecommendationBadge a =
     (case volatilityDifference a of
        None \<Rightarrow> None
      | Some d \<Rightarrow>
          if d > 2 then
            Some \<lparr> badge_label = ''Buy'', badge_title = ''Recommended Investment'',
                   badge_text = ''Undervalued by +'' @ toFixed 3 d @
                                ''%. Predicted IV is higher than market IV.'' \<rparr>
          else if d < - 2 then
            Some \<lparr> badge_label = ''Avoid'', badge_title = ''Not Recommended'',
                   badge_text = ''Overvalued by +'' @ toFixed 3 (- d) @
                                ''%. Market IV is higher than predicted IV.'' \<rparr>
          else None)"
    by (auto simp add: getRecommendationBadge_def formatVolatilityDiff_def Let_def
        split: option.splits)
  have reasons: "volatilityReasons a =
     (case volatilityDifference a of
        None \<Rightarrow> []
      | Some d \<Rightarrow>
          if d > 3 then
            [''Undervalued by '' @ toFixed 3 d @ ''% based on volatility analysis'',
             ''Our model predicts higher volatility than current market pricing'']
          else if d > 0 then
            [''Slightly undervalued by '' @ toFixed 3 d @ ''% based on volatility analysis'']
          else if d < - 3 then
            [''Overvalued by '' @ toFixed 3 (- d) @ ''% based on volatility analysis'',
             ''Market is pricing in more volatility than our model predicts'']
          else if d < 0 then
            [''Slightly overvalued by '' @ toFixed 3 (- d) @ ''% based on volatility analysis'']
          else [])"
    by (auto simp add: volatilityReasons_def split: option.splits)
  have pre: "prefix (volatilityReasons a) (getRecommendationReasons a)"
    by (simp add: getRecommendationReasons_def)
  have same: "volatilityDifference b = volatilityDifference a \<longrightarrow>
      getRecommendationBadge b = getRecommendationBadge a \<and>
      volatilityReasons b = volatilityReasons a"
    by (simp add: getRecommendationBadge_def volatilityReasons_def)
  have four: "volatilityDifference b = volatilityDifference a \<and> delta b = delta a \<and>
    openInterest b = openInterest a \<and> timeToExpiry b = timeToExpiry a \<longrightarrow>
      getRecommendationReasons b = getRecommendationReasons a"
    by (simp add: getRecommendationReasons_def volatilityReasons_def otherReasons_def)
  show ?thesis using badge reasons pre same four by (intro conjI)
qed

text \<open>The examples of the specification, from the theorem: 3.4 gives ``Undervalued by
  3.400\%'', 1.0 the ``slightly undervalued'' sentence, 0 neither sentence nor badge, and
  so does a contract without a volatility difference.\<close>

theorem classifier_bands_witness:
  "volatilityDifference sampleContract = Some 3.4 \<and>
   volatilityDifference (sampleContract\<lparr>strike := 180, delta := Some 0.9\<rparr>) =
     volatilityDifference sampleContract \<and>
   map_option badge_label (getRecommendationBadge sampleContract) = Some ''Buy'' \<and>
   volatilityReasons sampleContract =
     [''Undervalued by 3.400% based on volatility analysis'',
      ''Our model predicts higher volatility than current market pricing''] \<and>
   volatilityReasons (sampleContract\<lparr>strike := 180, delta := Some 0.9\<rparr>) =
     volatilityReasons sampleContract \<and>
   getRecommendationReasons (sampleContract\<lparr>strike := 180\<rparr>) =
     getRecommendationReasons sampleContract \<and>
   volatilityReasons (sampleContract\<lparr>volatilityDifference := Some 1.0\<rparr>) =
     [''Slightly undervalued by 1.000% based on volatility analysis''] \<and>
   getRecommendationBadge (sampleContract\<lparr>volatilityDifference := Some 1.0\<rparr>) = None \<and>
   volatilityReasons (sampleContract\<lparr>volatilityDifference := Some 0\<rparr>) = [] \<and>
   getRecommendationBadge (sampleContract\<lparr>volatilityDifference := Some 0\<rparr>) = None \<and>
   volatilityReasons (sampleContract\<lparr>volatilityDifference := None\<rparr>) = [] \<and>
   getRecommendationBadge (sampleContract\<lparr>volatilityDifference := None\<rparr>) = None"
proof -
  have h: "volatilityDifference sampleContract = Some 3.4"
    by (simp add: sampleContract_def)
  note t = toFixed_samples
  note a = classifier_bands [of sampleContract "sampleContract\<lparr>strike := 180, delta := Some 0.9\<rparr>"]
  note a' = classifier_bands [of sampleContract "sampleContract\<lparr>strike := 180\<rparr>"]
  note b = classifier_bands [of "sampleContract\<lparr>volatilityDifference := Some 1.0\<rparr>" sampleContract]
  note c = classifier_bands [of "sampleContract\<lparr>volatilityDifference := Some 0\<rparr>" sampleContract]
  note d = classifier_bands [of "sampleContract\<lparr>volatilityDifference := None\<rparr>" sampleContract]
  have 1: "map_option badge_label (getRecommendationBadge sampleContract) = Some ''Buy''"
    using a h by simp
  have 2: "volatilityReasons sampleContract =
     [''Undervalued by 3.400% based on volatility analysis'',
      ''Our model predicts higher volatility than current market pricing'']"
    using a h t by simp
  have 3: "volatilityReasons (sampleContract\<lparr>strike := 180, delta := Some 0.9\<rparr>) =
     volatilityReasons sampleContract"
    using a by simp
  have 4: "getRecommendationReasons (sampleContract\<lparr>strike := 180\<rparr>) =
     getRecommendationReasons sampleContract"
    using a' by simp
  have 5: "volatilityReasons (sampleContract\<lparr>volatilityDifference := Some 1.0\<rparr>) =
     [''Slightly undervalued by 1.000% based on volatility analysis'']"
    "getRecommendationBadge (sampleContract\<lparr>volatilityDifference := Some 1.0\<rparr>) = None"
    using b t by simp_all
  have 6: "volatilityReasons (sampleContract\<lparr>volatilityDifference := Some 0\<rparr>) = []"
    "getRecommendationBadge (sampleContract\<lparr>volatilityDifference := Some 0\<rparr>) = None"
    using c by simp_all
  have 7: "volatilityReasons (sampleContract\<lparr>volatilityDifference := None\<rparr>) = []"
    "getRecommendationBadge (sampleContract\<lparr>volatilityDifference := None\<rparr>) = None"
    using d by simp_all
  show ?thesis using h 1 2 3 4 5 6 7 by simp
qed

text \<open>Claim C1 as stated fails between 2 and 3: a difference of 2.5 is above 2 and carries
  the ``Buy'' badge, yet its justification is the ``slightly undervalued'' sentence, the one
  a difference of 1.0 receives. And the output is not determined by the volatility
  difference alone: a delta of 0.9 adds a sentence.\<close>

theorem classifier_bands_counterexample:
  "volatilityDifference (sampleContract\<lparr>volatilityDifference := Some 2.5\<rparr>) = Some 2.5 \<and>
   (2::real) < 2.5 \<and>
   map_option badge_label
     (getRecommendationBadge (sampleContract\<lparr>volatilityDifference := Some 2.5\<rparr>)) = Some ''Buy'' \<and>
   getRecommendationReasons (sampleContract\<lparr>volatilityDifference := Some 2.5\<rparr>) =
     [''Slightly undervalued by 2.500% based on volatility analysis''] \<and>
   getRecommendationReasons (sampleContract\<lparr>volatilityDifference := Some 1.0\<rparr>) =
     [''Slightly undervalued by 1.000% based on volatility analysis''] \<and>
   volatilityDifference (sampleContract\<lparr>delta := Some 0.9\<rparr>) =
     volatilityDifference sampleContract \<and>
   getRecommendationReasons sampleContract =
     [''Undervalued by 3.400% based on volatility analysis'',
      ''Our model predicts higher volatility than current market pricing''] \<and>
   getRecommendationReasons (sampleContract\<lparr>delta := Some 0.9\<rparr>) =
     [''Undervalued by 3.400% based on volatility analysis'',
      ''Our model predicts higher volatility than current market pricing'',
      ''High delta (0.9000) provides strong directional exposure'']"
proof -
  have "otherReasons (sampleContract\<lparr>volatilityDifference := v\<rparr>) = otherReasons sampleContract"
    for v
    by (simp add: otherReasons_def)
  then have o: "otherReasons (sampleContract\<lparr>volatilityDifference := v\<rparr>) = []" for v
    by (simp only: otherReasons_sample(1))
  note t = toFixed_samples
  note hi = otherReasons_sample(2)
  have v: "volatilityReasons (sampleContract\<lparr>delta := Some 0.9\<rparr>) = volatilityReasons sampleContract"
    by (simp add: volatilityReasons_def)
  have vs: "volatilityReasons sampleContract =
     [''Undervalued by 3.400% based on volatility analysis'',
      ''Our model predicts higher volatility than current market pricing'']"
    using t by (simp add: volatilityReasons_def sampleContract_def)
  show ?thesis
    using o [of "Some 2.5"] o [of "Some 1.0"] otherReasons_sample(1) hi v vs t
    by (simp add: getRecommendationBadge_def getRecommendationReasons_def volatilityReasons_def)
qed

section \<open>Properties of the query engine\<close>

lemma filterExpiry_spec: "filterExpiry f xs = filter (specExpiry f) xs"
  by (auto simp add: filterExpiry_def specExpiry_def [abs_def] split: option.splits)

lemma filterMinStrike_spec: "filterMinStrike f xs = filter (specMinStrike f) xs"
  by (simp add: filterMinStrike_def specMinStrike_def [abs_def] split: option.splits)

lemma filterMaxStrike_spec: "filterMaxStrike f xs = filter (specMaxStrike f) xs"
  by (simp add: filterMaxStrike_def specMaxStrike_def [abs_def] split: option.splits)

lemma filterMoneyness_spec: "filterMoneyness ch f xs = filter (specMoneyness ch f) xs"
  by (simp add: filterMoneyness_def specMoneyness_def [abs_def] atTheMoney_def [abs_def] Let_def mult.commute
      split: Moneyness.splits)

lemma filterMinVolume_spec: "filterMinVolume f xs = filter (specMinVolume f) xs"
  by (simp add: filterMinVolume_def specMinVolume_def [abs_def] split: option.splits)

lemma filterRecommended_spec: "filterRecommended f xs = filter (specRecommended f) xs"
  by (simp add: filterRecommended_def specRecommended_def [abs_def])

lemmas filter_steps_spec = filterExpiry_spec filterMinStrike_spec filterMaxStrike_spec
  filterMoneyness_spec filterMinVolume_spec filterRecommended_spec

lemma getFiltered_spec: "getFilteredOptions (Some ch) f = specFilter ch f"
  by (simp add: getFilteredOptions_def specFilter_def filter_steps_spec conj_commute conj_left_commute)

text \<open>
  Claim C5. For every chain and filter specification, \<open>getFilteredOptions\<close> applies
  its six steps in the fixed order (expiration, lower strike bound, upper strike bound,
  moneyness, minimum volume, recommended only) and keeps exactly the contracts of the
  chosen side that satisfy all six predicates, an unset field excluding nothing. The
  result is a subsequence of the side, hence no longer than it, and with every optional
  field unset it is the side itself, in order. The chain is an argument and is returned
  nowhere: it is not changed.
\<close>

theorem filter_narrowing:
  "getFilteredOptions (Some ch) f = specFilter ch f \<and>
   subseq (getFilteredOptions (Some ch) f) (chainSide ch (optionType f)) \<and>
   length (getFilteredOptions (Some ch) f) \<le> length (chainSide ch (optionType f)) \<and>
   (allUnset f \<longrightarrow> getFilteredOptions (Some ch) f = chainSide ch (optionType f))"
proof -
  have "allUnset f \<Longrightarrow> specFilter ch f = chainSide ch (optionType f)"
    by (simp add: allUnset_def specFilter_def specExpiry_def specMinStrike_def specMaxStrike_def
        specMoneyness_def specMinVolume_def specRecommended_def)
  then show ?thesis
    by (simp add: getFiltered_spec specFilter_def)
qed

text \<open>An all-unset specification on a chain with three calls returns the three calls.\<close>

theorem filter_narrowing_witness:
  "allUnset unsetFilters \<and>
   getFilteredOptions (Some sampleChain) unsetFilters = calls sampleChain \<and>
   length (getFilteredOptions (Some sampleChain) unsetFilters) = 3"
proof -
  have u: "allUnset unsetFilters"
    by (simp add: allUnset_def unsetFilters_def)
  have "getFilteredOptions (Some sampleChain) unsetFilters =
          chainSide sampleChain (optionType unsetFilters)"
    using filter_narrowing [of sampleChain unsetFilters] u by blast
  then show ?thesis
    using u by (simp add: unsetFilters_def chainSide_def sampleChain_def)
qed

text \<open>
  Claim C8. With the category ``ATM'' a contract passes the moneyness step exactly when
  its strike lies in \<open>[m - 0.02 m, m + 0.02 m]\<close>, \<open>m\<close> being the midpoint of the chain's
  strike range: the ATM filter keeps, of what the other five steps let through, the
  contracts in that interval. No reference price enters.
\<close>

theorem atm_filter:
  assumes "moneyness f = M_ATM"
  shows "getFilteredOptions (Some ch) f =
           filter (\<lambda>c. let m = (range_min (strikeRange ch) + range_max (strikeRange ch)) / 2
                        in m - 0.02 * m \<le> strike c \<and> strike c \<le> m + 0.02 * m)
             (getFilteredOptions (Some ch) (f\<lparr>moneyness := M_ALL\<rparr>))"
  using assms
  by (auto simp add: getFiltered_spec specFilter_def specExpiry_def specMinStrike_def
      specMaxStrike_def specMoneyness_def specMinVolume_def specRecommended_def atTheMoney_def
      Let_def intro!: filter_cong)

text \<open>For the strike range 170 to 180 the interval is 171.5 to 178.5: the strike 175 passes, 180 does not.\<close>

theorem atm_filter_witness:
  "moneyness (unsetFilters\<lparr>moneyness := M_ATM\<rparr>) = M_ATM \<and>
   getFilteredOptions (Some sampleChain) (unsetFilters\<lparr>moneyness := M_ATM\<rparr>) =
     [sampleContract, sampleContract\<lparr>expiryDate := ''2025-01-10'', volume := 75\<rparr>]"
  using atm_filter [of "unsetFilters\<lparr>moneyness := M_ATM\<rparr>" sampleChain]
  by (simp add: getFilteredOptions_def filterExpiry_def filterMinStrike_def filterMaxStrike_def
      filterMoneyness_def filterMinVolume_def filterRecommended_def unsetFilters_def chainSide_def
      sampleChain_def sampleContract_def)

section \<open>Properties of the sorting\<close>





















section \<open>Properties of the caching service\<close>

lemma toUpperCase_aapl: "toUpperCase ''aapl'' = ''AAPL''" "toUpperCase ''AAPL'' = ''AAPL''"
  by (simp_all add: toUpperCase_def)


lemma processOptionsData_lastUpdate:
  "lastUpdate (fst (processOptionsData pf s g)) = toISOString pf (nowMs pf)"
  by (simp add: processOptionsData_def split_beta Let_def)

lemma api_hit:
  assumes "cache (''options_'' @ toUpperCase s) = Some e"
    and "nowMs pf - entry_timestamp e < CACHE_EXPIRY"
  shows "fetchOptionsData_api cache pf later reply s g = (Some (entry_data e), cache, g)"
  using assms by (simp add: fetchOptionsData_api_def Let_def)

lemma api_rebuild:
  assumes "\<not> freshEntry cache pf s" and "usableReply reply"
  shows "fetchOptionsData_api cache pf later reply s g =
           (Some (fst (processOptionsData (pf\<lparr>nowMs := later\<rparr>) s g)),
            cache(''options_'' @ toUpperCase s \<mapsto>
              \<lparr> entry_data = fst (processOptionsData (pf\<lparr>nowMs := later\<rparr>) s g),
                entry_timestamp = nowMs pf \<rparr>),
            snd (processOptionsData (pf\<lparr>nowMs := later\<rparr>) s g))"
  using assms
  by (auto simp add: fetchOptionsData_api_def freshEntry_def usableReply_def Let_def split_beta
      split: option.splits ApiReply.splits)

text \<open>
  Claim C6, as amended. The key of the cache is the symbol in upper case. A request that
  finds a snapshot younger than five minutes returns it and leaves the cache as it is,
  whatever the provider would answer. A request that stores a snapshot is followed, less
  than five minutes later and for a symbol with the same upper-case form, by a request
  that returns the same snapshot, so both see the same generation timestamp. A request
  that finds a snapshot of five minutes or more rebuilds the chain when the provider's
  answer is usable: the new chain carries the time of its construction as timestamp and
  is stored under the time of the request. A request that finds no snapshot younger than
  five minutes and gets no usable answer returns \<open>null\<close> and leaves the cache, the
  old snapshot included, as it is.
\<close>

theorem cache_ttl:
  "(cache (''options_'' @ toUpperCase s) = Some e \<and>
      nowMs pf - entry_timestamp e < CACHE_EXPIRY \<longrightarrow>
      fetchOptionsData_api cache pf later reply s g = (Some (entry_data e), cache, g)) \<and>
   (\<not> freshEntry cache pf s \<and> usableReply reply \<and>
      nowMs pf2 - nowMs pf < CACHE_EXPIRY \<and> toUpperCase s2 = toUpperCase s \<longrightarrow>
      fst (fetchOptionsData_api (fst (snd (fetchOptionsData_api cache pf later reply s g)))
             pf2 later2 reply2 s2 g2) =
        fst (fetchOptionsData_api cache pf later reply s g) \<and>
      fst (fetchOptionsData_api cache pf later reply s g) \<noteq> None) \<and>
   (cache (''options_'' @ toUpperCase s) = Some e \<and>
      CACHE_EXPIRY \<le> nowMs pf - entry_timestamp e \<and> usableReply reply \<longrightarrow>
      fst (fetchOptionsData_api cache pf later reply s g) =
        Some (fst (processOptionsData (pf\<lparr>nowMs := later\<rparr>) s g)) \<and>
      lastUpdate (fst (processOptionsData (pf\<lparr>nowMs := later\<rparr>) s g)) = toISOString pf later \<and>
      map_option entry_timestamp
        (fst (snd (fetchOptionsData_api cache pf later reply s g)) (''options_'' @ toUpperCase s)) =
        Some (nowMs pf)) \<and>
   (\<not> freshEntry cache pf s \<and> \<not> usableReply reply \<longrightarrow>
      fetchOptionsData_api cache pf later reply s g = (None, cache, g))"
proof (intro conjI impI)
  assume "cache (''options_'' @ toUpperCase s) = Some e \<and>
      nowMs pf - entry_timestamp e < CACHE_EXPIRY"
  then show "fetchOptionsData_api cache pf later reply s g = (Some (entry_data e), cache, g)"
    by (simp add: api_hit)
next
  assume a: "\<not> freshEntry cache pf s \<and> usableReply reply \<and>
      nowMs pf2 - nowMs pf < CACHE_EXPIRY \<and> toUpperCase s2 = toUpperCase s"
  let ?ch = "fst (processOptionsData (pf\<lparr>nowMs := later\<rparr>) s g)"
  let ?c1 = "cache(''options_'' @ toUpperCase s \<mapsto> \<lparr> entry_data = ?ch, entry_timestamp = nowMs pf \<rparr>)"
  have r: "fetchOptionsData_api cache pf later reply s g =
      (Some ?ch, ?c1, snd (processOptionsData (pf\<lparr>nowMs := later\<rparr>) s g))"
    using a by (simp add: api_rebuild)
  have "fetchOptionsData_api ?c1 pf2 later2 reply2 s2 g2 = (Some ?ch, ?c1, g2)"
    using a api_hit [of ?c1 s2 "\<lparr> entry_data = ?ch, entry_timestamp = nowMs pf \<rparr>" pf2]
    by simp
  then show "fst (fetchOptionsData_api (fst (snd (fetchOptionsData_api cache pf later reply s g)))
             pf2 later2 reply2 s2 g2) = fst (fetchOptionsData_api cache pf later reply s g)"
    by (simp add: r)
  show "fst (fetchOptionsData_api cache pf later reply s g) \<noteq> None"
    by (simp add: r)
next
  assume a: "cache (''options_'' @ toUpperCase s) = Some e \<and>
      CACHE_EXPIRY \<le> nowMs pf - entry_timestamp e \<and> usableReply reply"
  then have "\<not> freshEntry cache pf s"
    by (simp add: freshEntry_def)
  then have r: "fetchOptionsData_api cache pf later reply s g =
           (Some (fst (processOptionsData (pf\<lparr>nowMs := later\<rparr>) s g)),
            cache(''options_'' @ toUpperCase s \<mapsto>
              \<lparr> entry_data = fst (processOptionsData (pf\<lparr>nowMs := later\<rparr>) s g),
                entry_timestamp = nowMs pf \<rparr>),
            snd (processOptionsData (pf\<lparr>nowMs := later\<rparr>) s g))"
    using a by (simp add: api_rebuild)
  show "fst (fetchOptionsData_api cache pf later reply s g) =
        Some (fst (processOptionsData (pf\<lparr>nowMs := later\<rparr>) s g))"
    by (simp add: r)
  show "lastUpdate (fst (processOptionsData (pf\<lparr>nowMs := later\<rparr>) s g)) = toISOString pf later"
    by (simp add: processOptionsData_lastUpdate)
  show "map_option entry_timestamp
        (fst (snd (fetchOptionsData_api cache pf later reply s g)) (''options_'' @ toUpperCase s)) =
        Some (nowMs pf)"
    by (simp add: r)
next
  assume "\<not> freshEntry cache pf s \<and> \<not> usableReply reply"
  then show "fetchOptionsData_api cache pf later reply s g = (None, cache, g)"
    by (auto simp add: fetchOptionsData_api_def freshEntry_def usableReply_def Let_def
        split: option.splits ApiReply.splits)
qed

text \<open>A request for \<open>aapl\<close> stores, a request for \<open>AAPL\<close> one minute later returns the
  same chain though the provider rejects; a snapshot of exactly five minutes is rebuilt
  on a usable answer, and kept, with \<open>null\<close> returned, on a rejected request.\<close>

theorem cache_ttl_witness:
  "\<not> freshEntry Map.empty samplePlatform ''aapl'' \<and> usableReply goodBody \<and>
   nowMs (samplePlatform\<lparr>nowMs := 1735547100000\<rparr>) - nowMs samplePlatform < CACHE_EXPIRY \<and>
   toUpperCase ''AAPL'' = toUpperCase ''aapl'' \<and>
   fst (fetchOptionsData_api
          (fst (snd (fetchOptionsData_api Map.empty samplePlatform 1735547041000 goodBody
                       ''aapl'' sampleRng)))
          (samplePlatform\<lparr>nowMs := 1735547100000\<rparr>) 1735547101000 Rejected ''AAPL'' sampleRng) =
     fst (fetchOptionsData_api Map.empty samplePlatform 1735547041000 goodBody ''aapl'' sampleRng) \<and>
   staleCache (''options_'' @ toUpperCase ''AAPL'') =
     Some \<lparr> entry_data = sampleChain, entry_timestamp = 1735547040000 - 300000 \<rparr> \<and>
   lastUpdate (the (fst (fetchOptionsData_api staleCache samplePlatform 1735547041000 goodBody
      ''AAPL'' sampleRng))) = ''2024-12-30T08:24:01.000Z'' \<and>
   lastUpdate sampleChain = ''2024-12-30T15:00:00.000Z'' \<and>
   \<not> freshEntry staleCache samplePlatform ''AAPL'' \<and> \<not> usableReply Rejected \<and>
   fetchOptionsData_api staleCache samplePlatform 1735547041000 Rejected ''AAPL'' sampleRng =
     (None, staleCache, sampleRng)"
proof -
  have f: "\<not> freshEntry Map.empty samplePlatform ''aapl''"
    by (simp add: freshEntry_def)
  have u: "usableReply goodBody"
    by (simp add: usableReply_def goodBody_def)
  have t: "nowMs (samplePlatform\<lparr>nowMs := 1735547100000\<rparr>) - nowMs samplePlatform < CACHE_EXPIRY"
    by (simp add: samplePlatform_def CACHE_EXPIRY_def)
  have k: "toUpperCase ''AAPL'' = toUpperCase ''aapl''"
    by (simp add: toUpperCase_aapl)
  have c: "staleCache (''options_'' @ toUpperCase ''AAPL'') =
     Some \<lparr> entry_data = sampleChain, entry_timestamp = 1735547040000 - 300000 \<rparr>"
    by (simp add: staleCache_def toUpperCase_aapl)
  have o: "CACHE_EXPIRY \<le> nowMs samplePlatform -
      entry_timestamp \<lparr> entry_data = sampleChain, entry_timestamp = 1735547040000 - 300000 \<rparr>"
    by (simp add: samplePlatform_def CACHE_EXPIRY_def)
  have i: "toISOString samplePlatform 1735547041000 = ''2024-12-30T08:24:01.000Z''"
    by (simp add: samplePlatform_def)
  note w1 = cache_ttl [of Map.empty "''aapl''" _ samplePlatform 1735547041000 goodBody sampleRng
      "samplePlatform\<lparr>nowMs := 1735547100000\<rparr>" "''AAPL''" 1735547101000 Rejected sampleRng]
  note w2 = cache_ttl [of staleCache "''AAPL''"
      "\<lparr> entry_data = sampleChain, entry_timestamp = 1735547040000 - 300000 \<rparr>"
      samplePlatform 1735547041000 goodBody sampleRng]
  have a: "fst (fetchOptionsData_api
          (fst (snd (fetchOptionsData_api Map.empty samplePlatform 1735547041000 goodBody
                       ''aapl'' sampleRng)))
          (samplePlatform\<lparr>nowMs := 1735547100000\<rparr>) 1735547101000 Rejected ''AAPL'' sampleRng) =
     fst (fetchOptionsData_api Map.empty samplePlatform 1735547041000 goodBody ''aapl'' sampleRng)"
    using w1 f u t k by blast
  have b: "lastUpdate (the (fst (fetchOptionsData_api staleCache samplePlatform 1735547041000
      goodBody ''AAPL'' sampleRng))) = ''2024-12-30T08:24:01.000Z''"
    using w2 c o u i by simp
  have nf: "\<not> freshEntry staleCache samplePlatform ''AAPL''"
    using c o by (simp add: freshEntry_def)
  have nu: "\<not> usableReply Rejected"
    by (simp add: usableReply_def)
  note w3 = cache_ttl [of staleCache "''AAPL''" _ samplePlatform 1735547041000 Rejected sampleRng]
  have d: "fetchOptionsData_api staleCache samplePlatform 1735547041000 Rejected ''AAPL'' sampleRng =
     (None, staleCache, sampleRng)"
    using w3 nf nu by blast
  show ?thesis
    using f u t k a c b nf nu d by (simp add: sampleChain_def)
qed

text \<open>Claim C6 as stated fails when the provider does not deliver: a snapshot of five minutes
  and a rate-limit note give \<open>null\<close>, no chain and no timestamp, and the old snapshot
  stays in the cache.\<close>

theorem cache_ttl_counterexample:
  "staleCache (''options_'' @ toUpperCase ''AAPL'') =
     Some \<lparr> entry_data = sampleChain, entry_timestamp = 1735547040000 - 300000 \<rparr> \<and>
   CACHE_EXPIRY \<le> nowMs samplePlatform - (1735547040000 - 300000) \<and>
   fetchOptionsData_api staleCache samplePlatform 1735547041000 rateLimited ''AAPL'' sampleRng =
     (None, staleCache, sampleRng)"
  by (simp add: fetchOptionsData_api_def rateLimited_def Let_def staleCache_def toUpperCase_aapl
      samplePlatform_def CACHE_EXPIRY_def)

end
